theory Spec2Isabelle
  imports
    Complex_Main
    "HOL-Library.Char_ord"
    "HOL-Library.List_Lexorder"
    "HOL-Library.Product_Lexorder"
    "HOL-Library.Multiset"
begin

section \<open>Data model\<close>

text \<open>
  The dashboard of \<^verbatim>\<open>src/Code/dashboard.py\<close> keeps two pandas tables,
  \<^verbatim>\<open>team_game_stats\<close> and \<^verbatim>\<open>player_game_stats\<close>. A table is modelled as
  the list of its rows in file order, a row as a record of the columns that
  \<^verbatim>\<open>update_dashboard\<close> reads. The two tables share the column names
  \<^verbatim>\<open>SEASON\<close>, \<^verbatim>\<open>NICKNAME\<close>, \<^verbatim>\<open>PTS\<close> and \<^verbatim>\<open>GAME_ID\<close>; the columns of the
  player table carry the prefix \<open>P_\<close> here, since a field name belongs to one record.

  Modelling conventions.
  \<^item> Every column is fully populated: no cell of an input table is missing.
  \<^item> A float is a real number, within the range of the finite doubles; a float result
    that pandas reports as NaN (the mean or median of no values, the standard deviation
    of fewer than two values, a division by zero) is \<open>None\<close>.
  \<^item> In the archetype classifier and in the tables \<^verbatim>\<open>team_success\<close> and
    \<^verbatim>\<open>player_success\<close>, whose results depend on how computed floats compare with
    each other, the float arithmetic is a parameter \<open>fl\<close> of the model (section Float
    arithmetic), and every statement about them holds for every arithmetic, the doubles
    of the machine among them. The other aggregations are written over exact reals;
    rounding is not modelled there.
  \<^item> Strings are ordered as Python orders them, character by character.
\<close>

record team_row =
  SEASON :: int
  NICKNAME :: string
  CONFERENCE :: string
  GAME_ID :: int
  PTS :: real
  WIN :: bool
  HOME_AWAY :: string
  POINT_DIFF :: real

record player_row =
  P_SEASON :: int
  PLAYER_NAME :: string
  P_NICKNAME :: string
  MINUTES_PLAYED :: real
  P_PTS :: real
  EFFICIENCY_SCORE :: real
  P_GAME_ID :: int

section \<open>Row filter\<close>

text \<open>
  A dropdown value is \<^verbatim>\<open>None\<close> or a list; \<^verbatim>\<open>if season:\<close> is false for
  \<^verbatim>\<open>None\<close> and for the empty list.
\<close>

definition truthy :: "'a list option \<Rightarrow> bool" where
  "truthy sel = (case sel of None \<Rightarrow> False | Some vs \<Rightarrow> vs \<noteq> [])"

definition isin :: "'a \<Rightarrow> 'a list option \<Rightarrow> bool" where
  "isin v sel = (case sel of None \<Rightarrow> False | Some vs \<Rightarrow> v \<in> set vs)"

text \<open>Lines 321-333 of \<^verbatim>\<open>update_dashboard\<close>: the three \<^verbatim>\<open>if\<close> blocks in order.\<close>

definition filter_tables ::
  "int list option \<Rightarrow> string list option \<Rightarrow> string list option \<Rightarrow>
   team_row list \<times> player_row list \<Rightarrow> team_row list \<times> player_row list" where
  "filter_tables season team player base =
     (let df_team = fst base;
          df_player = snd base;
          df_team = (if truthy season then filter (\<lambda>r. isin (SEASON r) season) df_team else df_team);
          df_player = (if truthy season then filter (\<lambda>r. isin (P_SEASON r) season) df_player else df_player);
          df_team = (if truthy team then filter (\<lambda>r. isin (NICKNAME r) team) df_team else df_team);
          df_player = (if truthy team then filter (\<lambda>r. isin (P_NICKNAME r) team) df_player else df_player);
          df_player = (if truthy player then filter (\<lambda>r. isin (PLAYER_NAME r) player) df_player else df_player)
      in (df_team, df_player))"

section \<open>The pandas operations the callback uses\<close>

text \<open>
  \<^verbatim>\<open>Series.mean\<close>, \<^verbatim>\<open>Series.median\<close> and \<^verbatim>\<open>Series.std\<close> (sample standard
  deviation, \<^verbatim>\<open>ddof=1\<close>) take the values that are present and give NaN when
  there are none, or fewer than two for \<^verbatim>\<open>std\<close>. \<open>dropna\<close> keeps the values that
  are present.
\<close>

definition dropna :: "'a option list \<Rightarrow> 'a list" where
  "dropna xs = List.map_filter (\<lambda>x. x) xs"

definition mean :: "real list \<Rightarrow> real option" where
  "mean xs = (if xs = [] then None else Some (sum_list xs / real (length xs)))"

definition median :: "real list \<Rightarrow> real option" where
  "median xs =
     (let ys = sort xs; n = length ys
      in if n = 0 then None
         else if n mod 2 = 1 then Some (ys ! (n div 2))
         else Some ((ys ! (n div 2 - 1) + ys ! (n div 2)) / 2))"

definition std :: "real list \<Rightarrow> real option" where
  "std xs =
     (let n = length xs
      in if n < 2 then None
         else let m = sum_list xs / real n
              in Some (sqrt (sum_list (map (\<lambda>x. (x - m)\<^sup>2) xs) / real (n - 1))))"

fun max_list :: "real list \<Rightarrow> real option" where
  "max_list [] = None"
| "max_list (x # xs) = Some (foldl max x xs)"

definition nunique :: "'a list \<Rightarrow> nat" where
  "nunique xs = length (remdups xs)"

text \<open>
  \<^verbatim>\<open>df.groupby(key)\<close>: one group per distinct key, the keys in ascending order
  (\<^verbatim>\<open>sort=True\<close> is the default), each group holding its rows in table order. A list
  of key columns is a key of tuples, ordered lexicographically. \<open>agg\<close> reduces every
  group to one value and keeps the key.
\<close>

definition groupby :: "('r \<Rightarrow> 'k::linorder) \<Rightarrow> 'r list \<Rightarrow> ('k \<times> 'r list) list" where
  "groupby key df = map (\<lambda>k. (k, filter (\<lambda>r. key r = k) df)) (sort (remdups (map key df)))"

definition agg :: "('r list \<Rightarrow> 'v) \<Rightarrow> ('k \<times> 'r list) list \<Rightarrow> ('k \<times> 'v) list" where
  "agg f groups = map (\<lambda>g. (fst g, f (snd g))) groups"

text \<open>
  \<^verbatim>\<open>sort_values(ascending=False)\<close>: the rows with a value in descending order of
  it, then the rows whose value is NaN (\<^verbatim>\<open>na_position='last'\<close>). Rows with equal
  values are kept in their previous order here; pandas' default sort leaves the order
  of equal values open, and no statement below depends on it. \<^verbatim>\<open>head(n)\<close> is \<open>take n\<close>.
\<close>

definition neg_value :: "real option \<Rightarrow> real" where
  "neg_value v = (case v of None \<Rightarrow> 0 | Some x \<Rightarrow> - x)"

definition sort_values_desc :: "('r \<Rightarrow> real option) \<Rightarrow> 'r list \<Rightarrow> 'r list" where
  "sort_values_desc col df =
     sort_key (\<lambda>r. neg_value (col r)) (filter (\<lambda>r. col r \<noteq> None) df) @
     filter (\<lambda>r. col r = None) df"

text \<open>
  \<^verbatim>\<open>Series.idxmax()\<close>: the label of the first largest value; on a series without
  values it raises \<^verbatim>\<open>ValueError\<close>.
\<close>

datatype error = ValueError | IndexError

fun first_max :: "'k \<times> real \<Rightarrow> ('k \<times> real) list \<Rightarrow> 'k \<times> real" where
  "first_max best [] = best"
| "first_max best (kv # rest) = first_max (if snd best < snd kv then kv else best) rest"

definition present :: "('k \<times> real option) list \<Rightarrow> ('k \<times> real) list" where
  "present s = List.map_filter (\<lambda>kv. map_option (\<lambda>v. (fst kv, v)) (snd kv)) s"

definition idxmax :: "('k \<times> real option) list \<Rightarrow> error + 'k" where
  "idxmax s = (case present s of [] \<Rightarrow> Inl ValueError | kv # rest \<Rightarrow> Inr (fst (first_max kv rest)))"

text \<open>The win flag as the number pandas averages.\<close>

definition win :: "team_row \<Rightarrow> real" where
  "win r = (if WIN r then 1 else 0)"

section \<open>Float arithmetic\<close>

text \<open>
  The three float computations whose rounding the classifier and the rankings depend on:
  \<open>fl_mean\<close>, what \<^verbatim>\<open>mean\<close> returns for the values of a non-empty group;
  \<open>fl_div\<close>, the quotient of two floats, the divisor not zero; and \<open>fl_mid\<close>, the mean
  of the two middle values that \<^verbatim>\<open>median\<close> returns for an even number of values.
  \<open>mean_fl\<close> and \<open>median_fl\<close> are \<^verbatim>\<open>Series.mean\<close> and \<^verbatim>\<open>Series.median\<close> over
  such an arithmetic.
\<close>

record float_ops =
  fl_mean :: "real list \<Rightarrow> real"
  fl_div :: "real \<Rightarrow> real \<Rightarrow> real"
  fl_mid :: "real \<Rightarrow> real \<Rightarrow> real"

definition mean_fl :: "float_ops \<Rightarrow> real list \<Rightarrow> real option" where
  "mean_fl fl xs = (if xs = [] then None else Some (fl_mean fl xs))"

definition median_fl :: "float_ops \<Rightarrow> real list \<Rightarrow> real option" where
  "median_fl fl xs =
     (let ys = sort xs; n = length ys
      in if n = 0 then None
         else if n mod 2 = 1 then Some (ys ! (n div 2))
         else Some (fl_mid fl (ys ! (n div 2 - 1)) (ys ! (n div 2))))"

text \<open>Two arithmetics. The first does not round.\<close>

definition exact_ops :: float_ops where
  "exact_ops =
     \<lparr>fl_mean = (\<lambda>xs. sum_list xs / real (length xs)),
      fl_div = (\<lambda>x y. x / y),
      fl_mid = (\<lambda>a b. (a + b) / 2)\<rparr>"

text \<open>
  The second rounds a quotient and a sum to the nearest double, ties to the even
  significand (53 bits; subnormal numbers and overflow left out). Its mean is the sum of
  the values divided by their number, rounded once: when the values are whole numbers,
  as in the example tables below, doubles add them without error, in any order, and this
  is the mean in doubles. \<open>binade n x\<close> is the exponent \<open>e\<close> with
  \<open>2\<^sup>e \<le> x < 2\<^sup>e\<^sup>+\<^sup>1\<close> for a positive \<open>x\<close>, found in at most \<open>n\<close> steps.
\<close>

fun binade :: "nat \<Rightarrow> real \<Rightarrow> int" where
  "binade 0 x = 0"
| "binade (Suc n) x =
     (if 2 \<le> x then binade n (x / 2) + 1 else if x < 1 then binade n (x * 2) - 1 else 0)"

definition round_half_even :: "real \<Rightarrow> int" where
  "round_half_even q =
     (let f = \<lfloor>q\<rfloor>; d = q - of_int f
      in if d < 1 / 2 then f else if 1 / 2 < d then f + 1 else if even f then f else f + 1)"

definition round_double :: "real \<Rightarrow> real" where
  "round_double x =
     (if x = 0 then 0
      else let u = 2 powi (binade 2200 \<bar>x\<bar> - 52)
           in sgn x * of_int (round_half_even (\<bar>x\<bar> / u)) * u)"

definition double_ops :: float_ops where
  "double_ops =
     \<lparr>fl_mean = (\<lambda>xs. round_double (sum_list xs / real (length xs))),
      fl_div = (\<lambda>x y. round_double (x / y)),
      fl_mid = (\<lambda>a b. round_double (round_double (a + b) / 2))\<rparr>"

section \<open>KPI cards and badges\<close>

text \<open>Lines 342-349. The column tests (\<^verbatim>\<open>"GAME_ID" in df_team.columns\<close>) are true of both tables.\<close>

definition total_games :: "team_row list \<Rightarrow> nat" where
  "total_games df_team = nunique (map GAME_ID df_team)"

definition total_players :: "player_row list \<Rightarrow> nat" where
  "total_players df_player = nunique (map PLAYER_NAME df_player)"

definition avg_pts :: "team_row list \<Rightarrow> real option" where
  "avg_pts df_team = (if df_team \<noteq> [] then mean (map PTS df_team) else Some 0)"

definition home_win_rate :: "team_row list \<Rightarrow> real option" where
  "home_win_rate df_team =
     (let home = filter (\<lambda>r. HOME_AWAY r = ''Home'') df_team
      in if home \<noteq> [] then map_option (\<lambda>m. m * 100) (mean (map win home)) else Some 0)"

text \<open>Lines 433-441: each badge is computed inside \<^verbatim>\<open>try\<close>, and any exception gives \<^verbatim>\<open>"N/A"\<close>.\<close>

definition top_team_try :: "team_row list \<Rightarrow> error + string" where
  "top_team_try df_team = idxmax (agg (\<lambda>grp. mean (map win grp)) (groupby NICKNAME df_team))"

definition top_team :: "team_row list \<Rightarrow> string" where
  "top_team df_team = (case top_team_try df_team of Inl e \<Rightarrow> ''N/A'' | Inr t \<Rightarrow> t)"

definition top_player_try :: "player_row list \<Rightarrow> error + string" where
  "top_player_try df_player =
     idxmax (agg (\<lambda>grp. mean (map EFFICIENCY_SCORE grp)) (groupby PLAYER_NAME df_player))"

definition top_player :: "player_row list \<Rightarrow> string" where
  "top_player df_player = (case top_player_try df_player of Inl e \<Rightarrow> ''N/A'' | Inr p \<Rightarrow> p)"

section \<open>Aggregations over the team table\<close>

text \<open>Lines 458-460 and 539-541: \<^verbatim>\<open>season_scoring\<close> and \<^verbatim>\<open>league_avg\<close>.\<close>

definition season_scoring :: "team_row list \<Rightarrow> (int \<times> real option) list" where
  "season_scoring df_team = agg (\<lambda>grp. mean (map PTS grp)) (groupby SEASON df_team)"

definition league_avg :: "team_row list \<Rightarrow> (int \<times> real option) list" where
  "league_avg df_team = agg (\<lambda>grp. mean (map PTS grp)) (groupby SEASON df_team)"

text \<open>
  Lines 492-495: \<^verbatim>\<open>parity\<close>. The first \<^verbatim>\<open>groupby\<close> gives a series indexed by
  (season, team); the second groups that series by the season level of its index.
\<close>

definition parity :: "team_row list \<Rightarrow> (int \<times> real option) list" where
  "parity df_team =
     agg (\<lambda>grp. median (dropna (map snd grp)))
       (groupby (\<lambda>kv. fst (fst kv))
         (agg (\<lambda>grp. mean (map win grp)) (groupby (\<lambda>r. (SEASON r, NICKNAME r)) df_team)))"

text \<open>Lines 514-516, 535-537, 568-570.\<close>

definition home_away :: "team_row list \<Rightarrow> ((int \<times> string) \<times> real option) list" where
  "home_away df_team = agg (\<lambda>grp. mean (map win grp)) (groupby (\<lambda>r. (SEASON r, HOME_AWAY r)) df_team)"

definition team_avg :: "team_row list \<Rightarrow> ((int \<times> string) \<times> real option) list" where
  "team_avg df_team = agg (\<lambda>grp. mean (map PTS grp)) (groupby (\<lambda>r. (SEASON r, NICKNAME r)) df_team)"

definition conf :: "team_row list \<Rightarrow> ((int \<times> string) \<times> real option) list" where
  "conf df_team = agg (\<lambda>grp. mean (map PTS grp)) (groupby (\<lambda>r. (SEASON r, CONFERENCE r)) df_team)"

text \<open>
  Lines 588-613. No operation of the \<^verbatim>\<open>try\<close> block raises on a numeric column, so
  \<^verbatim>\<open>consistency\<close> is always a table; \<open>None\<close> stands for the \<^verbatim>\<open>except\<close> branch.
  \<^verbatim>\<open>DataFrame.empty\<close> is true of a table without rows. \<open>fig6\<close> is the data of the
  chart, \<open>None\<close> where the code returns the empty figure \<^verbatim>\<open>{}\<close>.
\<close>

definition consistency :: "team_row list \<Rightarrow> (int \<times> real option) list option" where
  "consistency df_team =
     Some (agg (\<lambda>grp. median (dropna (map snd grp)))
       (groupby (\<lambda>kv. fst (fst kv))
         (agg (\<lambda>grp. std (map POINT_DIFF grp)) (groupby (\<lambda>r. (SEASON r, NICKNAME r)) df_team))))"

definition no_chart :: "(int \<times> real option) list option \<Rightarrow> bool" where
  "no_chart c = (case c of None \<Rightarrow> True | Some rows \<Rightarrow> rows = [])"

definition fig6 :: "team_row list \<Rightarrow> (int \<times> real option) list option" where
  "fig6 df_team = (if no_chart (consistency df_team) then None else consistency df_team)"

definition team_consistency_msg :: "team_row list \<Rightarrow> string" where
  "team_consistency_msg df_team =
     (if no_chart (consistency df_team) then ''No data for selected filters'' else [])"

text \<open>Lines 616-623: \<^verbatim>\<open>team_success\<close>, the means computed in the arithmetic \<open>fl\<close>.\<close>

definition team_success :: "float_ops \<Rightarrow> team_row list \<Rightarrow> (string \<times> real option) list" where
  "team_success fl df_team =
     take 10 (sort_values_desc snd
       (agg (\<lambda>grp. mean_fl fl (map win grp)) (groupby NICKNAME df_team)))"

text \<open>
  Lines 645-656: \<^verbatim>\<open>dominant_seasons\<close>, with its \<^verbatim>\<open>LABEL\<close> column as the last
  component. \<open>str_int\<close> is Python's \<^verbatim>\<open>str\<close> on an integer.
\<close>

function str_nat :: "nat \<Rightarrow> string" where
  "str_nat n =
     (if n < 10 then [char_of (48 + n)] else str_nat (n div 10) @ [char_of (48 + n mod 10)])"
  by pat_completeness auto
termination
  by (relation "measure (\<lambda>n. n)") auto

declare str_nat.simps [simp del]

definition str_int :: "int \<Rightarrow> string" where
  "str_int i = (if i < 0 then CHR ''-'' # str_nat (nat (- i)) else str_nat (nat i))"

definition dominant_seasons :: "team_row list \<Rightarrow> ((int \<times> string) \<times> real option \<times> string) list" where
  "dominant_seasons df_team =
     map (\<lambda>kv. (fst kv, snd kv, snd (fst kv) @ '' ('' @ str_int (fst (fst kv)) @ '')''))
       (take 10 (sort_values_desc snd
          (agg (\<lambda>grp. mean (map win grp)) (groupby (\<lambda>r. (SEASON r, NICKNAME r)) df_team))))"

section \<open>Team and player colours\<close>

definition TEAM_COLORS :: "(string \<times> string \<times> string) list" where
  "TEAM_COLORS =
    [(''Hawks'', ''#E03A3E'', ''#C1D32F''),
     (''Celtics'', ''#007A33'', ''#BA9653''),
     (''Nets'', ''#000000'', ''#FFFFFF''),
     (''Hornets'', ''#1D1160'', ''#00788C''),
     (''Bulls'', ''#CE1141'', ''#000000''),
     (''Cavaliers'', ''#860038'', ''#FDBB30''),
     (''Mavericks'', ''#00538C'', ''#B8C4CA''),
     (''Nuggets'', ''#0E2240'', ''#FEC524''),
     (''Pistons'', ''#C8102E'', ''#1D42BA''),
     (''Warriors'', ''#1D428A'', ''#FFC72C''),
     (''Rockets'', ''#CE1141'', ''#C4CED4''),
     (''Pacers'', ''#002D62'', ''#FDBB30''),
     (''Clippers'', ''#C8102E'', ''#1D428A''),
     (''Lakers'', ''#552583'', ''#FDB927''),
     (''Grizzlies'', ''#5D76A9'', ''#12173F''),
     (''Heat'', ''#98002E'', ''#F9A01B''),
     (''Bucks'', ''#00471B'', ''#EEE1C6''),
     (''Timberwolves'', ''#0C2340'', ''#236192''),
     (''Pelicans'', ''#0C2340'', ''#C8102E''),
     (''Knicks'', ''#006BB6'', ''#F58426''),
     (''Thunder'', ''#007AC1'', ''#EF3B24''),
     (''Magic'', ''#0077C0'', ''#C4CED4''),
     (''76ers'', ''#006BB6'', ''#ED174C''),
     (''Suns'', ''#1D1160'', ''#E56020''),
     (''Trail Blazers'', ''#E03A3E'', ''#000000''),
     (''Kings'', ''#5A2D81'', ''#63727A''),
     (''Spurs'', ''#C4CED4'', ''#000000''),
     (''Raptors'', ''#CE1141'', ''#000000''),
     (''Jazz'', ''#002B5C'', ''#F9A01B''),
     (''Wizards'', ''#002B5C'', ''#E31837'')]"

definition default_team_color :: string where
  "default_team_color = ''#888888''"

text \<open>
  Lines 360-375, the body of the loop over the teams of \<^verbatim>\<open>df_team\<close>: the primary and
  secondary colour stored for team \<open>t\<close>. An empty colour string is false in Python.
\<close>

definition team_colors :: "string \<Rightarrow> string \<times> string" where
  "team_colors t =
     (case map_of TEAM_COLORS t of
        Some cols \<Rightarrow>
          (let primary = (if fst cols \<noteq> [] then fst cols else default_team_color)
           in (primary, if snd cols \<noteq> [] then snd cols else primary))
      | None \<Rightarrow> (default_team_color, default_team_color))"

definition team_primary_map :: "team_row list \<Rightarrow> string \<rightharpoonup> string" where
  "team_primary_map df_team =
     map_of (map (\<lambda>t. (t, fst (team_colors t))) (sort (remdups (map NICKNAME df_team))))"

definition team_secondary_map :: "team_row list \<Rightarrow> string \<rightharpoonup> string" where
  "team_secondary_map df_team =
     map_of (map (\<lambda>t. (t, snd (team_colors t))) (sort (remdups (map NICKNAME df_team))))"

text \<open>
  \<^verbatim>\<open>Series.mode()\<close> returns the most frequent values in ascending order;
  \<^verbatim>\<open>.iloc[0]\<close> takes the first and raises \<^verbatim>\<open>IndexError\<close> when there is none.
\<close>

definition mode :: "'a::linorder list \<Rightarrow> 'a list" where
  "mode xs =
     (let vals = sort (remdups xs);
          top = foldr max (map (count_list xs) vals) 0
      in filter (\<lambda>v. count_list xs v = top) vals)"

definition iloc0 :: "'a list \<Rightarrow> error + 'a" where
  "iloc0 xs = (case xs of [] \<Rightarrow> Inl IndexError | x # rest \<Rightarrow> Inr x)"

text \<open>Lines 378-393. \<^verbatim>\<open>dict.get(key, default)\<close> with a key that may be \<^verbatim>\<open>None\<close>.\<close>

definition team_mode :: "player_row list \<Rightarrow> string option" where
  "team_mode grp = (case iloc0 (mode (map P_NICKNAME grp)) of Inl e \<Rightarrow> None | Inr t \<Rightarrow> Some t)"

definition dict_get :: "(string \<rightharpoonup> string) \<Rightarrow> string option \<Rightarrow> string \<Rightarrow> string" where
  "dict_get m key dflt =
     (case key of None \<Rightarrow> dflt | Some k \<Rightarrow> (case m k of None \<Rightarrow> dflt | Some c \<Rightarrow> c))"

definition player_primary_map :: "team_row list \<Rightarrow> player_row list \<Rightarrow> string \<rightharpoonup> string" where
  "player_primary_map df_team df_player =
     map_of (agg (\<lambda>grp. dict_get (team_primary_map df_team) (team_mode grp) default_team_color)
       (groupby PLAYER_NAME df_player))"

definition player_secondary_map :: "team_row list \<Rightarrow> player_row list \<Rightarrow> string \<rightharpoonup> string" where
  "player_secondary_map df_team df_player =
     map_of (agg (\<lambda>grp. dict_get (team_secondary_map df_team) (team_mode grp)
                          (dict_get (team_primary_map df_team) (team_mode grp) default_team_color))
       (groupby PLAYER_NAME df_player))"

section \<open>Player archetypes\<close>

text \<open>
  Float comparison and division. A comparison with NaN is false. \<open>safe_div\<close> has no
  value for a zero divisor, where the float quotient is infinite or NaN.
  The means, the quotient and the medians are computed in the arithmetic \<open>fl\<close>.
\<close>

definition ge_float :: "real option \<Rightarrow> real option \<Rightarrow> bool" where
  "ge_float a b = (case a of None \<Rightarrow> False | Some x \<Rightarrow> (case b of None \<Rightarrow> False | Some y \<Rightarrow> y \<le> x))"

definition lt_float :: "real option \<Rightarrow> real option \<Rightarrow> bool" where
  "lt_float a b = (case a of None \<Rightarrow> False | Some x \<Rightarrow> (case b of None \<Rightarrow> False | Some y \<Rightarrow> x < y))"

definition safe_div :: "float_ops \<Rightarrow> real \<Rightarrow> real \<Rightarrow> real option" where
  "safe_div fl x y = (if y = 0 then None else Some (fl_div fl x y))"

definition div_float :: "float_ops \<Rightarrow> real option \<Rightarrow> real option \<Rightarrow> real option" where
  "div_float fl a b =
     (case a of None \<Rightarrow> None | Some x \<Rightarrow> (case b of None \<Rightarrow> None | Some y \<Rightarrow> safe_div fl x y))"

record archetype_agg =
  A_PLAYER_NAME :: string
  AVG_MIN :: "real option"
  AVG_PTS :: "real option"
  GAMES_PLAYED :: nat

record archetype_eff = archetype_agg +
  PTS_PER_MIN :: "real option"

record archetype_row = archetype_eff +
  ARCHETYPE :: string

text \<open>Step 1 (lines 683-692) and step 2 (lines 695-698).\<close>

definition player_agg :: "float_ops \<Rightarrow> player_row list \<Rightarrow> archetype_agg list" where
  "player_agg fl df_player =
     map (\<lambda>g. \<lparr>A_PLAYER_NAME = fst g,
               AVG_MIN = mean_fl fl (map MINUTES_PLAYED (snd g)),
               AVG_PTS = mean_fl fl (map P_PTS (snd g)),
               GAMES_PLAYED = length (snd g)\<rparr>)
       (groupby PLAYER_NAME df_player)"

definition retained :: "float_ops \<Rightarrow> player_row list \<Rightarrow> archetype_agg list" where
  "retained fl df_player =
     filter (\<lambda>r. 30 \<le> GAMES_PLAYED r \<and> ge_float (AVG_MIN r) (Some 8)) (player_agg fl df_player)"

text \<open>Step 3 (line 701) and step 4 (lines 704-705).\<close>

definition with_pts_per_min :: "float_ops \<Rightarrow> archetype_agg list \<Rightarrow> archetype_eff list" where
  "with_pts_per_min fl rows =
     map (\<lambda>r. \<lparr>A_PLAYER_NAME = A_PLAYER_NAME r, AVG_MIN = AVG_MIN r, AVG_PTS = AVG_PTS r,
               GAMES_PLAYED = GAMES_PLAYED r,
               PTS_PER_MIN = div_float fl (AVG_PTS r) (AVG_MIN r)\<rparr>) rows"

definition usage_median :: "float_ops \<Rightarrow> archetype_eff list \<Rightarrow> real option" where
  "usage_median fl rows = median_fl fl (dropna (map AVG_MIN rows))"

definition eff_median :: "float_ops \<Rightarrow> archetype_eff list \<Rightarrow> real option" where
  "eff_median fl rows = median_fl fl (dropna (map PTS_PER_MIN rows))"

text \<open>Step 5 (lines 708-718).\<close>

definition assign_archetype :: "real option \<Rightarrow> real option \<Rightarrow> archetype_eff \<Rightarrow> string" where
  "assign_archetype um em row =
     (if ge_float (AVG_MIN row) um \<and> ge_float (PTS_PER_MIN row) em then ''High-Usage Stars''
      else if ge_float (AVG_MIN row) um \<and> lt_float (PTS_PER_MIN row) em then ''Volume Scorers''
      else if lt_float (AVG_MIN row) um \<and> ge_float (PTS_PER_MIN row) em then ''Efficient Role Players''
      else ''Low-Impact Bench Players'')"

definition archetype_data :: "float_ops \<Rightarrow> player_row list \<Rightarrow> archetype_row list" where
  "archetype_data fl df_player =
     (let rows = with_pts_per_min fl (retained fl df_player);
          um = usage_median fl rows;
          em = eff_median fl rows
      in map (\<lambda>r. \<lparr>A_PLAYER_NAME = A_PLAYER_NAME r, AVG_MIN = AVG_MIN r, AVG_PTS = AVG_PTS r,
                    GAMES_PLAYED = GAMES_PLAYED r, PTS_PER_MIN = PTS_PER_MIN r,
                    ARCHETYPE = assign_archetype um em r\<rparr>) rows)"

section \<open>Aggregations over the player table\<close>

text \<open>Lines 746-755: \<^verbatim>\<open>scorers\<close>, the share of a player's games with at least 20 points.\<close>

definition TWENTY_PLUS :: "player_row \<Rightarrow> real" where
  "TWENTY_PLUS r = (if 20 \<le> P_PTS r then 1 else 0)"

definition scorers :: "player_row list \<Rightarrow> (string \<times> real option) list" where
  "scorers df_player =
     take 10 (sort_values_desc snd
       (agg (\<lambda>grp. mean (map TWENTY_PLUS grp)) (groupby PLAYER_NAME df_player)))"

text \<open>
  Lines 781-798: \<^verbatim>\<open>player_success\<close>; a row is (player, \<^verbatim>\<open>AVG_EFF\<close>, \<^verbatim>\<open>GAMES\<close>),
  the means computed in the arithmetic \<open>fl\<close>.
\<close>

definition AVG_EFF :: "string \<times> real option \<times> nat \<Rightarrow> real option" where
  "AVG_EFF row = fst (snd row)"

definition GAMES :: "string \<times> real option \<times> nat \<Rightarrow> nat" where
  "GAMES row = snd (snd row)"

definition player_eff :: "float_ops \<Rightarrow> player_row list \<Rightarrow> (string \<times> real option \<times> nat) list" where
  "player_eff fl df_player =
     agg (\<lambda>grp. (mean_fl fl (map EFFICIENCY_SCORE grp), length grp))
       (groupby PLAYER_NAME df_player)"

definition player_success :: "float_ops \<Rightarrow> player_row list \<Rightarrow> (string \<times> real option \<times> nat) list" where
  "player_success fl df_player =
     take 10 (sort_values_desc AVG_EFF
       (filter (\<lambda>row. 100 \<le> GAMES row) (player_eff fl df_player)))"

text \<open>
  Lines 818-827: \<^verbatim>\<open>top_games\<close>; a row is (player, \<^verbatim>\<open>BEST_EFF\<close>, \<^verbatim>\<open>BEST_PTS\<close>).
\<close>

definition BEST_EFF :: "string \<times> real option \<times> real option \<Rightarrow> real option" where
  "BEST_EFF row = fst (snd row)"

definition best_games :: "player_row list \<Rightarrow> (string \<times> real option \<times> real option) list" where
  "best_games df_player =
     agg (\<lambda>grp. (max_list (map EFFICIENCY_SCORE grp), max_list (map P_PTS grp)))
       (groupby PLAYER_NAME df_player)"

definition top_games :: "player_row list \<Rightarrow> (string \<times> real option \<times> real option) list" where
  "top_games df_player = take 10 (sort_values_desc BEST_EFF (best_games df_player))"

section \<open>The callback\<close>

text \<open>
  \<^verbatim>\<open>update_dashboard(season, team, player)\<close> over the two base tables, in the float
  arithmetic \<open>fl\<close>: the filter, then every value the cards, badges and charts are built
  from. \<open>d_seasons\<close> is the
  pair of seasons shown in the first card, \<open>None\<close> where the card reads
  \<^verbatim>\<open>All Seasons\<close>. Layout and styling of the figures are left out.
\<close>

definition seasons_range :: "team_row list \<Rightarrow> (int \<times> int) option" where
  "seasons_range df_team =
     (case sort (remdups (map SEASON df_team)) of
        [] \<Rightarrow> None
      | s # rest \<Rightarrow> Some (s, last (s # rest)))"

record dashboard =
  d_seasons :: "(int \<times> int) option"
  d_total_games :: nat
  d_total_players :: nat
  d_avg_pts :: "real option"
  d_home_win_rate :: "real option"
  d_team_primary_map :: "string \<rightharpoonup> string"
  d_team_secondary_map :: "string \<rightharpoonup> string"
  d_player_primary_map :: "string \<rightharpoonup> string"
  d_player_secondary_map :: "string \<rightharpoonup> string"
  d_top_team :: string
  d_top_player :: string
  d_season_scoring :: "(int \<times> real option) list"
  d_parity :: "(int \<times> real option) list"
  d_home_away :: "((int \<times> string) \<times> real option) list"
  d_team_avg :: "((int \<times> string) \<times> real option) list"
  d_league_avg :: "(int \<times> real option) list"
  d_conf :: "((int \<times> string) \<times> real option) list"
  d_fig6 :: "(int \<times> real option) list option"
  d_team_consistency_msg :: string
  d_team_success :: "(string \<times> real option) list"
  d_dominant_seasons :: "((int \<times> string) \<times> real option \<times> string) list"
  d_archetype_data :: "archetype_row list"
  d_scorers :: "(string \<times> real option) list"
  d_player_success :: "(string \<times> real option \<times> nat) list"
  d_top_games :: "(string \<times> real option \<times> real option) list"

definition update_dashboard ::
  "float_ops \<Rightarrow> int list option \<Rightarrow> string list option \<Rightarrow> string list option \<Rightarrow>
   team_row list \<times> player_row list \<Rightarrow> dashboard" where
  "update_dashboard fl season team player base =
     (let filtered = filter_tables season team player base;
          df_team = fst filtered;
          df_player = snd filtered
      in \<lparr>d_seasons = seasons_range df_team,
          d_total_games = total_games df_team,
          d_total_players = total_players df_player,
          d_avg_pts = avg_pts df_team,
          d_home_win_rate = home_win_rate df_team,
          d_team_primary_map = team_primary_map df_team,
          d_team_secondary_map = team_secondary_map df_team,
          d_player_primary_map = player_primary_map df_team df_player,
          d_player_secondary_map = player_secondary_map df_team df_player,
          d_top_team = top_team df_team,
          d_top_player = top_player df_player,
          d_season_scoring = season_scoring df_team,
          d_parity = parity df_team,
          d_home_away = home_away df_team,
          d_team_avg = team_avg df_team,
          d_league_avg = league_avg df_team,
          d_conf = conf df_team,
          d_fig6 = fig6 df_team,
          d_team_consistency_msg = team_consistency_msg df_team,
          d_team_success = team_success fl df_team,
          d_dominant_seasons = dominant_seasons df_team,
          d_archetype_data = archetype_data fl df_player,
          d_scorers = scorers df_player,
          d_player_success = player_success fl df_player,
          d_top_games = top_games df_player\<rparr>)"

section \<open>The league parity as the specification words it\<close>

text \<open>
  The specification describes \<^verbatim>\<open>parity\<close> as a nested reduction: the mean win rate
  of every team within a season, then the median of those means over the teams of the
  season. \<open>parity_spec\<close> is that description; \<open>season_win_rate\<close> is the plain mean of the
  win flag per season, which the specification says \<^verbatim>\<open>parity\<close> is not.
\<close>

definition teams_in_season :: "team_row list \<Rightarrow> int \<Rightarrow> string list" where
  "teams_in_season df s = sort (remdups (map NICKNAME (filter (\<lambda>r. SEASON r = s) df)))"

definition team_win_rate :: "team_row list \<Rightarrow> int \<Rightarrow> string \<Rightarrow> real option" where
  "team_win_rate df s t = mean (map win (filter (\<lambda>r. SEASON r = s \<and> NICKNAME r = t) df))"

definition parity_spec :: "team_row list \<Rightarrow> (int \<times> real option) list" where
  "parity_spec df =
     map (\<lambda>s. (s, median (dropna (map (team_win_rate df s) (teams_in_season df s)))))
       (sort (remdups (map SEASON df)))"

definition season_win_rate :: "team_row list \<Rightarrow> (int \<times> real option) list" where
  "season_win_rate df = agg (\<lambda>grp. mean (map win grp)) (groupby SEASON df)"

section \<open>The most frequent team as the specification words it\<close>

text \<open>
  The specification resolves a tie between most frequent teams by the first-encountered
  value: \<open>first_mode\<close> is the first value, in row order, that no other value outnumbers.
\<close>

definition first_mode :: "'a list \<Rightarrow> 'a option" where
  "first_mode xs = find (\<lambda>v. list_all (\<lambda>u. count_list xs u \<le> count_list xs v) xs) xs"

section \<open>The archetypes as the specification words them\<close>

text \<open>
  The specification's description of the classifier, per player name: the player's
  games, average minutes and average points over them, efficiency as their quotient,
  all three as the float arithmetic \<open>fl\<close> computes them; the retained players, in the
  order of the grouped table; and the table of the four labels, with a value equal to
  the median on the \<open>\<ge>\<close> side.
\<close>

definition games_of :: "player_row list \<Rightarrow> string \<Rightarrow> player_row list" where
  "games_of df p = filter (\<lambda>r. PLAYER_NAME r = p) df"

definition avg_minutes :: "float_ops \<Rightarrow> player_row list \<Rightarrow> string \<Rightarrow> real" where
  "avg_minutes fl df p = fl_mean fl (map MINUTES_PLAYED (games_of df p))"

definition avg_points :: "float_ops \<Rightarrow> player_row list \<Rightarrow> string \<Rightarrow> real" where
  "avg_points fl df p = fl_mean fl (map P_PTS (games_of df p))"

definition efficiency :: "float_ops \<Rightarrow> player_row list \<Rightarrow> string \<Rightarrow> real" where
  "efficiency fl df p = fl_div fl (avg_points fl df p) (avg_minutes fl df p)"

definition retained_players :: "float_ops \<Rightarrow> player_row list \<Rightarrow> string list" where
  "retained_players fl df =
     filter (\<lambda>p. 30 \<le> length (games_of df p) \<and> 8 \<le> avg_minutes fl df p)
       (sort (remdups (map PLAYER_NAME df)))"

definition label_by_medians :: "real \<Rightarrow> real \<Rightarrow> real \<Rightarrow> real \<Rightarrow> string" where
  "label_by_medians um em usage eff =
     (if um \<le> usage
      then (if em \<le> eff then ''High-Usage Stars'' else ''Volume Scorers'')
      else (if em \<le> eff then ''Efficient Role Players'' else ''Low-Impact Bench Players''))"

text \<open>The rows of the three stages of the classifier, written per retained player.\<close>

definition agg_row :: "float_ops \<Rightarrow> player_row list \<Rightarrow> string \<Rightarrow> archetype_agg" where
  "agg_row fl df p =
     \<lparr>A_PLAYER_NAME = p, AVG_MIN = Some (avg_minutes fl df p),
      AVG_PTS = Some (avg_points fl df p), GAMES_PLAYED = length (games_of df p)\<rparr>"

definition eff_row :: "float_ops \<Rightarrow> player_row list \<Rightarrow> string \<Rightarrow> archetype_eff" where
  "eff_row fl df p =
     \<lparr>A_PLAYER_NAME = p, AVG_MIN = Some (avg_minutes fl df p),
      AVG_PTS = Some (avg_points fl df p), GAMES_PLAYED = length (games_of df p),
      PTS_PER_MIN = Some (efficiency fl df p)\<rparr>"

definition arch_row ::
  "float_ops \<Rightarrow> player_row list \<Rightarrow> real option \<Rightarrow> real option \<Rightarrow> string \<Rightarrow> archetype_row" where
  "arch_row fl df um em p =
     \<lparr>A_PLAYER_NAME = p, AVG_MIN = Some (avg_minutes fl df p),
      AVG_PTS = Some (avg_points fl df p), GAMES_PLAYED = length (games_of df p),
      PTS_PER_MIN = Some (efficiency fl df p),
      ARCHETYPE = assign_archetype um em (eff_row fl df p)\<rparr>"

section \<open>The ranked tables as the specification words them\<close>

text \<open>
  The rows that qualify for the three top-10 tables, from the input tables: one row per
  team with the mean of its win flags; one row per player with at least 100 games, with
  the mean of the player's efficiency scores and the number of games; one row per
  player with the highest efficiency score and the highest points of the player's
  games. Teams and players are in ascending order of name.
\<close>

definition team_games :: "team_row list \<Rightarrow> string \<Rightarrow> team_row list" where
  "team_games df t = filter (\<lambda>r. NICKNAME r = t) df"

definition win_rate :: "float_ops \<Rightarrow> team_row list \<Rightarrow> string \<Rightarrow> real" where
  "win_rate fl df t = fl_mean fl (map win (team_games df t))"

definition team_rows :: "float_ops \<Rightarrow> team_row list \<Rightarrow> (string \<times> real option) list" where
  "team_rows fl df =
     map (\<lambda>t. (t, Some (win_rate fl df t))) (sort (remdups (map NICKNAME df)))"

definition mean_efficiency :: "float_ops \<Rightarrow> player_row list \<Rightarrow> string \<Rightarrow> real" where
  "mean_efficiency fl df p = fl_mean fl (map EFFICIENCY_SCORE (games_of df p))"

definition career_rows :: "float_ops \<Rightarrow> player_row list \<Rightarrow> (string \<times> real option \<times> nat) list" where
  "career_rows fl df =
     map (\<lambda>p. (p, Some (mean_efficiency fl df p), length (games_of df p)))
       (filter (\<lambda>p. 100 \<le> length (games_of df p)) (sort (remdups (map PLAYER_NAME df))))"

definition best_efficiency :: "player_row list \<Rightarrow> string \<Rightarrow> real" where
  "best_efficiency df p = Max (set (map EFFICIENCY_SCORE (games_of df p)))"

definition best_points :: "player_row list \<Rightarrow> string \<Rightarrow> real" where
  "best_points df p = Max (set (map P_PTS (games_of df p)))"

definition best_rows :: "player_row list \<Rightarrow> (string \<times> real option \<times> real option) list" where
  "best_rows df =
     map (\<lambda>p. (p, Some (best_efficiency df p), Some (best_points df p)))
       (sort (remdups (map PLAYER_NAME df)))"

section \<open>Example tables\<close>

text \<open>Small tables on which the statements below are evaluated.\<close>

definition home_loss :: "team_row list" where
  "home_loss =
     [\<lparr>SEASON = 2020, NICKNAME = ''Lakers'', CONFERENCE = ''West'', GAME_ID = 1,
       PTS = 98, WIN = False, HOME_AWAY = ''Home'', POINT_DIFF = - 4\<rparr>]"

definition home_split :: "team_row list" where
  "home_split =
     [\<lparr>SEASON = 2020, NICKNAME = ''Lakers'', CONFERENCE = ''West'', GAME_ID = 1,
       PTS = 98, WIN = False, HOME_AWAY = ''Home'', POINT_DIFF = - 4\<rparr>,
      \<lparr>SEASON = 2020, NICKNAME = ''Bulls'', CONFERENCE = ''East'', GAME_ID = 2,
       PTS = 101, WIN = True, HOME_AWAY = ''Home'', POINT_DIFF = 3\<rparr>,
      \<lparr>SEASON = 2020, NICKNAME = ''Heat'', CONFERENCE = ''East'', GAME_ID = 2,
       PTS = 98, WIN = False, HOME_AWAY = ''Away'', POINT_DIFF = - 3\<rparr>]"

definition traded :: "player_row list" where
  "traded =
     [\<lparr>P_SEASON = 2020, PLAYER_NAME = ''A'', P_NICKNAME = ''Lakers'', MINUTES_PLAYED = 30,
       P_PTS = 20, EFFICIENCY_SCORE = 25, P_GAME_ID = 1\<rparr>,
      \<lparr>P_SEASON = 2020, PLAYER_NAME = ''A'', P_NICKNAME = ''Bulls'', MINUTES_PLAYED = 20,
       P_PTS = 10, EFFICIENCY_SCORE = 12, P_GAME_ID = 2\<rparr>,
      \<lparr>P_SEASON = 2020, PLAYER_NAME = ''B'', P_NICKNAME = ''Heat'', MINUTES_PLAYED = 25,
       P_PTS = 30, EFFICIENCY_SCORE = 28, P_GAME_ID = 2\<rparr>]"

text \<open>
  A player table with five players: \<open>A\<close>, \<open>B\<close> and \<open>E\<close> with 30 games each, \<open>C\<close> with 30
  games of 5 minutes, and \<open>D\<close> with a single game.
\<close>

definition game :: "string \<Rightarrow> string \<Rightarrow> real \<Rightarrow> real \<Rightarrow> real \<Rightarrow> nat \<Rightarrow> player_row" where
  "game p t m pts eff i =
     \<lparr>P_SEASON = 2020, PLAYER_NAME = p, P_NICKNAME = t, MINUTES_PLAYED = m, P_PTS = pts,
      EFFICIENCY_SCORE = eff, P_GAME_ID = int i\<rparr>"

definition league :: "player_row list" where
  "league =
     map (game ''A'' ''Lakers'' 30 15 20) [1..<31] @
     map (game ''B'' ''Bulls'' 10 8 9) [1..<31] @
     map (game ''C'' ''Heat'' 5 4 3) [1..<31] @
     map (game ''D'' ''Heat'' 40 30 35) [1..<2] @
     map (game ''E'' ''Heat'' 20 13 15) [31..<61]"

text \<open>
  A player table with two players of 30 games each, all values whole numbers: \<open>A\<close> with
  29 games of 8 minutes without points and one game of 18 minutes and 25 points, \<open>B\<close>
  with 10 minutes and 1 point in every game. Both have exactly one tenth of a point per
  minute; in doubles the quotient of \<open>A\<close> is 0.09999999999999999, below the 0.1 of \<open>B\<close>.
\<close>

definition close_call :: "player_row list" where
  "close_call =
     map (game ''A'' ''Lakers'' 8 0 5) [1..<30] @
     map (game ''A'' ''Lakers'' 18 25 30) [30..<31] @
     map (game ''B'' ''Bulls'' 10 1 5) [1..<31]"

text \<open>
  A team table of eleven teams with one game each, and a player table of three players:
  \<open>A\<close> with 100 games, \<open>B\<close> with 120 and \<open>C\<close> with 50.
\<close>

definition single_game :: "int \<times> string \<times> bool \<Rightarrow> team_row" where
  "single_game g =
     \<lparr>SEASON = 2020, NICKNAME = fst (snd g), CONFERENCE = ''East'', GAME_ID = fst g,
      PTS = 100, WIN = snd (snd g), HOME_AWAY = (if snd (snd g) then ''Home'' else ''Away''),
      POINT_DIFF = (if snd (snd g) then 5 else - 5)\<rparr>"

definition eleven_teams :: "team_row list" where
  "eleven_teams =
     map single_game
       [(1, ''Hawks'', True), (1, ''Celtics'', False), (2, ''Nets'', True),
        (2, ''Hornets'', False), (3, ''Bulls'', True), (3, ''Cavaliers'', False),
        (4, ''Mavericks'', True), (4, ''Nuggets'', False), (5, ''Pistons'', True),
        (5, ''Warriors'', False), (6, ''Rockets'', False)]"

definition careers :: "player_row list" where
  "careers =
     map (game ''A'' ''Lakers'' 30 15 20) [1..<101] @
     map (game ''B'' ''Bulls'' 32 22 25) [1..<121] @
     map (game ''C'' ''Heat'' 35 28 30) [1..<51]"

section \<open>Properties of the row filter\<close>

lemma truthy_None [simp]: "\<not> truthy None"
  by (simp add: truthy_def)

lemma truthy_Nil [simp]: "\<not> truthy (Some [])"
  by (simp add: truthy_def)

lemma filter_tables_fst:
  "fst (filter_tables season team player base) =
     filter (\<lambda>r. (truthy season \<longrightarrow> isin (SEASON r) season) \<and>
                  (truthy team \<longrightarrow> isin (NICKNAME r) team)) (fst base)"
  by (simp add: filter_tables_def Let_def)

lemma filter_tables_snd:
  "snd (filter_tables season team player base) =
     filter (\<lambda>r. (truthy season \<longrightarrow> isin (P_SEASON r) season) \<and>
                  (truthy team \<longrightarrow> isin (P_NICKNAME r) team) \<and>
                  (truthy player \<longrightarrow> isin (PLAYER_NAME r) player)) (snd base)"
  by (auto simp add: filter_tables_def Let_def intro: filter_cong)

text \<open>
  C7. Filtering the already filtered tables again with the same selection returns the
  same two tables, and a constraint without values (\<^verbatim>\<open>None\<close> or the empty list)
  restricts nothing: with no values in any constraint the base tables come back
  unchanged, and an empty list in one constraint acts as that constraint left out.
\<close>

theorem filter_tables_idempotent:
  "filter_tables season team player (filter_tables season team player base) =
     filter_tables season team player base
   \<and> filter_tables None None None base = base
   \<and> filter_tables (Some []) team player base = filter_tables None team player base
   \<and> filter_tables season (Some []) player base = filter_tables season None player base
   \<and> filter_tables season team (Some []) base = filter_tables season team None base"
proof -
  have idem: "filter_tables season team player (filter_tables season team player base) =
     filter_tables season team player base"
    by (rule prod_eqI) (simp_all add: filter_tables_fst filter_tables_snd)
  have noop: "filter_tables None None None base = base"
    by (rule prod_eqI) (simp_all add: filter_tables_fst filter_tables_snd)
  have s: "filter_tables (Some []) team player base = filter_tables None team player base"
    by (rule prod_eqI) (simp_all add: filter_tables_fst filter_tables_snd)
  have t: "filter_tables season (Some []) player base = filter_tables season None player base"
    by (rule prod_eqI) (simp_all add: filter_tables_fst filter_tables_snd)
  have p: "filter_tables season team (Some []) base = filter_tables season team None base"
    by (rule prod_eqI) (simp_all add: filter_tables_fst filter_tables_snd)
  from idem noop s t p show ?thesis by blast
qed

section \<open>Groups\<close>

lemma groupby_Nil [simp]: "groupby key [] = []"
  by (simp add: groupby_def)

lemma map_fst_groupby: "map fst (groupby key df) = sort (remdups (map key df))"
  by (simp add: groupby_def comp_def)

lemma set_groupby:
  "set (groupby key df) = (\<lambda>k. (k, filter (\<lambda>r. key r = k) df)) ` key ` set df"
  by (auto simp add: groupby_def)

lemma groupby_nonempty: "g \<in> set (groupby key df) \<Longrightarrow> snd g \<noteq> []"
  by (auto simp add: set_groupby filter_empty_conv)

lemma groupby_eq_Nil: "groupby key df = [] \<longleftrightarrow> df = []"
  by (metis groupby_Nil map_fst_groupby list.map_disc_iff set_empty set_sort set_remdups
      set_map image_is_empty)

lemma mean_Some: "xs \<noteq> [] \<Longrightarrow> mean xs = Some (sum_list xs / real (length xs))"
  by (simp add: mean_def)

lemma sort_remdups_cong: "set xs = set ys \<Longrightarrow> sort (remdups xs) = sort (remdups ys)"
  by (rule sorted_distinct_set_unique) simp_all

lemma sorted_map_Pair: "sorted xs \<Longrightarrow> sorted (map (Pair s) xs)"
  by (induction xs) auto

lemma filter_fst_sorted_keys:
  fixes a :: "'r \<Rightarrow> 'a::linorder" and b :: "'r \<Rightarrow> 'b::linorder"
  shows "filter (\<lambda>k. fst k = s) (sort (remdups (map (\<lambda>r. (a r, b r)) df))) =
         map (Pair s) (sort (remdups (map b (filter (\<lambda>r. a r = s) df))))"
proof (rule sorted_distinct_set_unique)
  show "sorted (filter (\<lambda>k. fst k = s) (sort (remdups (map (\<lambda>r. (a r, b r)) df))))"
    by (rule sorted_wrt_filter) simp
  show "distinct (filter (\<lambda>k. fst k = s) (sort (remdups (map (\<lambda>r. (a r, b r)) df))))"
    by simp
  show "sorted (map (Pair s) (sort (remdups (map b (filter (\<lambda>r. a r = s) df)))))"
    by (rule sorted_map_Pair) simp
  show "distinct (map (Pair s) (sort (remdups (map b (filter (\<lambda>r. a r = s) df)))))"
    by (simp add: distinct_map inj_on_def)
  show "set (filter (\<lambda>k. fst k = s) (sort (remdups (map (\<lambda>r. (a r, b r)) df)))) =
        set (map (Pair s) (sort (remdups (map b (filter (\<lambda>r. a r = s) df)))))"
    by auto
qed

lemma groupby_level:
  fixes a :: "'r \<Rightarrow> 'a::linorder" and b :: "'r \<Rightarrow> 'b::linorder"
  shows "groupby (\<lambda>kv. fst (fst kv)) (agg f (groupby (\<lambda>r. (a r, b r)) df)) =
     map (\<lambda>s. (s, map (\<lambda>t. ((s, t), f (filter (\<lambda>r. a r = s \<and> b r = t) df)))
                    (sort (remdups (map b (filter (\<lambda>r. a r = s) df))))))
         (sort (remdups (map a df)))"
proof -
  let ?K = "sort (remdups (map (\<lambda>r. (a r, b r)) df))"
  let ?h = "\<lambda>k. (k, f (filter (\<lambda>r. (a r, b r) = k) df))"
  have S: "agg f (groupby (\<lambda>r. (a r, b r)) df) = map ?h ?K"
    by (simp add: agg_def groupby_def comp_def)
  have keys: "sort (remdups (map (\<lambda>kv. fst (fst kv)) (map ?h ?K))) = sort (remdups (map a df))"
    by (rule sort_remdups_cong) (auto simp add: image_iff)
  have grp: "filter (\<lambda>kv. fst (fst kv) = s) (map ?h ?K) =
      map (\<lambda>t. ((s, t), f (filter (\<lambda>r. a r = s \<and> b r = t) df)))
        (sort (remdups (map b (filter (\<lambda>r. a r = s) df))))" for s
  proof -
    have "filter (\<lambda>kv. fst (fst kv) = s) (map ?h ?K) = map ?h (filter (\<lambda>k. fst k = s) ?K)"
      by (simp add: filter_map comp_def)
    also have "\<dots> = map ?h (map (Pair s) (sort (remdups (map b (filter (\<lambda>r. a r = s) df)))))"
      by (simp only: filter_fst_sorted_keys)
    finally show ?thesis by (simp add: comp_def)
  qed
  show ?thesis
    unfolding S by (simp only: groupby_def [of "\<lambda>kv. fst (fst kv)"] keys grp)
qed

lemma sort_remdups_eq_Nil [simp]: "sort (remdups xs) = [] \<longleftrightarrow> xs = []"
  by (metis set_empty set_sort set_remdups)

section \<open>The home win rate\<close>

lemma sum_list_win: "sum_list (map win rows) = real (length (filter WIN rows))"
  by (induction rows) (simp_all add: win_def)

text \<open>
  C3, as the code has it. The home win rate is the number of won rows among the rows
  flagged \<^verbatim>\<open>Home\<close>, divided by the number of those rows, times 100; it lies between 0
  and 100; it is 0 when there is no \<^verbatim>\<open>Home\<close> row; and it is 0 exactly when no
  \<^verbatim>\<open>Home\<close> row is a win, which includes the tables that have \<^verbatim>\<open>Home\<close> rows, all
  of them lost.
\<close>

theorem home_win_rate_range:
  "home_win_rate df_team =
     Some (if filter (\<lambda>r. HOME_AWAY r = ''Home'') df_team = [] then 0
           else real (length (filter WIN (filter (\<lambda>r. HOME_AWAY r = ''Home'') df_team))) /
                real (length (filter (\<lambda>r. HOME_AWAY r = ''Home'') df_team)) * 100)
   \<and> (\<exists>v. home_win_rate df_team = Some v \<and> 0 \<le> v \<and> v \<le> 100)
   \<and> (filter (\<lambda>r. HOME_AWAY r = ''Home'') df_team = [] \<longrightarrow> home_win_rate df_team = Some 0)
   \<and> (home_win_rate df_team = Some 0 \<longleftrightarrow>
        filter WIN (filter (\<lambda>r. HOME_AWAY r = ''Home'') df_team) = [])"
proof -
  define home where "home = filter (\<lambda>r. HOME_AWAY r = ''Home'') df_team"
  have le: "length (filter WIN home) \<le> length home"
    by (rule length_filter_le)
  have val: "home_win_rate df_team =
      Some (if home = [] then 0 else real (length (filter WIN home)) / real (length home) * 100)"
    by (simp add: home_win_rate_def Let_def home_def mean_Some sum_list_win)
  have rng: "\<exists>v. home_win_rate df_team = Some v \<and> 0 \<le> v \<and> v \<le> 100"
  proof (cases "home = []")
    case True
    with val show ?thesis by simp
  next
    case False
    then have pos: "0 < real (length home)" by simp
    from le have "real (length (filter WIN home)) \<le> real (length home)"
      by simp
    then have "real (length (filter WIN home)) / real (length home) * 100 \<le> 100"
      using pos by (simp add: pos_divide_le_eq)
    moreover have "0 \<le> real (length (filter WIN home)) / real (length home) * 100" by simp
    ultimately show ?thesis using val False by simp
  qed
  have zero: "home_win_rate df_team = Some 0 \<longleftrightarrow> filter WIN home = []"
  proof (cases "home = []")
    case True
    with val show ?thesis by simp
  next
    case False
    with val show ?thesis by simp
  qed
  have none: "home = [] \<longrightarrow> home_win_rate df_team = Some 0"
    using val by simp
  from val rng none zero show ?thesis unfolding home_def by blast
qed

theorem home_win_rate_range_witness:
  "home_win_rate home_split = Some 50"
  using home_win_rate_range [of home_split]
  by (simp add: home_split_def)

text \<open>
  C3 as the specification words it fails on a table whose only \<^verbatim>\<open>Home\<close> row is
  a loss: the rate is 0 although a \<^verbatim>\<open>Home\<close> row exists.
\<close>

theorem home_win_rate_zero_counterexample:
  "home_win_rate home_loss = Some 0 \<and> filter (\<lambda>r. HOME_AWAY r = ''Home'') home_loss \<noteq> []"
  by (simp add: home_loss_def home_win_rate_def mean_def win_def)

section \<open>League parity\<close>

lemma parity_eq: "parity df = parity_spec df"
  unfolding parity_def groupby_level
  by (simp add: parity_spec_def agg_def comp_def team_win_rate_def [abs_def] teams_in_season_def)

lemma parity_home_split: "parity home_split = [(2020, Some 0)]"
  by (simp add: parity_def groupby_def agg_def home_split_def mean_def win_def dropna_def
      median_def)

lemma season_win_rate_home_split: "season_win_rate home_split = [(2020, Some (1 / 3))]"
  by (simp add: season_win_rate_def groupby_def agg_def home_split_def mean_def win_def)

text \<open>
  C5. The league parity computed by the two chained \<^verbatim>\<open>groupby\<close> calls is the nested
  reduction of the specification: per season, the median over the season's teams of each
  team's mean win rate. It is not the per-season mean of the win flag: on the table
  \<open>home_split\<close> (three teams in one season, one win) the parity is 0 and the mean is 1/3.
\<close>

theorem parity_two_stage:
  "parity df_team = parity_spec df_team \<and> parity home_split \<noteq> season_win_rate home_split"
proof
  show "parity df_team = parity_spec df_team"
    by (rule parity_eq)
  show "parity home_split \<noteq> season_win_rate home_split"
    by (simp add: parity_home_split season_win_rate_home_split)
qed

section \<open>Team consistency\<close>

lemma dropna_Nones [simp]: "dropna (map (\<lambda>t. None) ts) = []"
  by (induction ts) (simp_all add: dropna_def)

lemma median_Nil [simp]: "median [] = None"
  by (simp add: median_def)

lemma std_single: "length xs = 1 \<Longrightarrow> std xs = None"
  by (simp add: std_def)

lemma consistency_eq:
  "consistency df =
     Some (map (\<lambda>s. (s, median (dropna (map (\<lambda>t. std (map POINT_DIFF
                 (filter (\<lambda>r. SEASON r = s \<and> NICKNAME r = t) df)))
               (sort (remdups (map NICKNAME (filter (\<lambda>r. SEASON r = s) df))))))))
            (sort (remdups (map SEASON df))))"
  unfolding consistency_def groupby_level
  by (simp add: agg_def comp_def)

lemma no_chart_consistency: "no_chart (consistency df) \<longleftrightarrow> df = []"
  by (simp add: consistency_eq no_chart_def)

text \<open>
  C2, as the code has it. When every (season, team) group holds exactly one game, every
  standard deviation is undefined and the consistency table has one row per season of
  the filtered table, each with an undefined value; it is not empty unless the filtered
  table is. The message \<^verbatim>\<open>No data for selected filters\<close> is emitted, and the chart
  replaced by the empty figure, exactly when the filtered team table has no rows;
  otherwise the message is the empty string and the chart is drawn from the table.
\<close>

theorem consistency_single_games:
  "((\<forall>g \<in> set (groupby (\<lambda>r. (SEASON r, NICKNAME r)) df_team). length (snd g) = 1) \<longrightarrow>
      consistency df_team = Some (map (\<lambda>s. (s, None)) (sort (remdups (map SEASON df_team)))))
   \<and> (team_consistency_msg df_team = ''No data for selected filters'' \<longleftrightarrow> df_team = [])
   \<and> (fig6 df_team = None \<longleftrightarrow> df_team = [])
   \<and> (df_team \<noteq> [] \<longrightarrow> team_consistency_msg df_team = [] \<and> fig6 df_team = consistency df_team)"
proof -
  have single: "consistency df_team = Some (map (\<lambda>s. (s, None)) (sort (remdups (map SEASON df_team))))"
    if one: "\<forall>g \<in> set (groupby (\<lambda>r. (SEASON r, NICKNAME r)) df_team). length (snd g) = 1"
  proof -
    have undefined_std: "std (map POINT_DIFF (filter (\<lambda>r. SEASON r = s \<and> NICKNAME r = t) df_team)) = None"
      if s: "s \<in> set (sort (remdups (map SEASON df_team)))"
        and t: "t \<in> set (sort (remdups (map NICKNAME (filter (\<lambda>r. SEASON r = s) df_team))))"
      for s t
    proof -
      from t obtain r where r: "r \<in> set df_team" "SEASON r = s" "NICKNAME r = t"
        by auto
      then have "((s, t), filter (\<lambda>r. (SEASON r, NICKNAME r) = (s, t)) df_team)
          \<in> set (groupby (\<lambda>r. (SEASON r, NICKNAME r)) df_team)"
        by (force simp add: set_groupby)
      with one have "length (filter (\<lambda>r. (SEASON r, NICKNAME r) = (s, t)) df_team) = 1"
        by fastforce
      then show ?thesis
        by (simp add: std_single)
    qed
    have inner: "median (dropna (map (\<lambda>t. std (map POINT_DIFF
              (filter (\<lambda>r. SEASON r = s \<and> NICKNAME r = t) df_team)))
            (sort (remdups (map NICKNAME (filter (\<lambda>r. SEASON r = s) df_team)))))) = None"
      if s: "s \<in> set (sort (remdups (map SEASON df_team)))" for s
    proof -
      have "map (\<lambda>t. std (map POINT_DIFF (filter (\<lambda>r. SEASON r = s \<and> NICKNAME r = t) df_team)))
            (sort (remdups (map NICKNAME (filter (\<lambda>r. SEASON r = s) df_team)))) =
          map (\<lambda>t. None) (sort (remdups (map NICKNAME (filter (\<lambda>r. SEASON r = s) df_team))))"
        by (rule map_cong [OF refl]) (rule undefined_std [OF s])
      then show ?thesis
        by (simp only: dropna_Nones median_Nil)
    qed
    have "map (\<lambda>s. (s, median (dropna (map (\<lambda>t. std (map POINT_DIFF
                 (filter (\<lambda>r. SEASON r = s \<and> NICKNAME r = t) df_team)))
               (sort (remdups (map NICKNAME (filter (\<lambda>r. SEASON r = s) df_team))))))))
            (sort (remdups (map SEASON df_team))) =
          map (\<lambda>s. (s, None)) (sort (remdups (map SEASON df_team)))"
      by (rule map_cong [OF refl]) (simp only: inner)
    then show ?thesis
      by (simp only: consistency_eq)
  qed
  have msg: "team_consistency_msg df_team = ''No data for selected filters'' \<longleftrightarrow> df_team = []"
    by (simp add: team_consistency_msg_def no_chart_consistency)
  have fig: "fig6 df_team = None \<longleftrightarrow> df_team = []"
    by (simp add: fig6_def no_chart_consistency) (simp add: consistency_def)
  have rest: "df_team \<noteq> [] \<longrightarrow> team_consistency_msg df_team = [] \<and> fig6 df_team = consistency df_team"
    by (simp add: team_consistency_msg_def fig6_def no_chart_consistency)
  from single msg fig rest show ?thesis by blast
qed

theorem consistency_single_games_witness:
  "consistency home_split = Some [(2020, None)]
   \<and> team_consistency_msg home_split = [] \<and> team_consistency_msg [] = ''No data for selected filters''"
proof -
  have one: "\<forall>g \<in> set (groupby (\<lambda>r. (SEASON r, NICKNAME r)) home_split). length (snd g) = 1"
    by (simp add: home_split_def groupby_def)
  have ne: "home_split \<noteq> []"
    by (simp add: home_split_def)
  have seasons: "sort (remdups (map SEASON home_split)) = [2020]"
    by (simp add: home_split_def)
  from consistency_single_games [of home_split] one ne seasons consistency_single_games [of "[]"]
  show ?thesis by simp
qed

text \<open>
  C2 as the specification words it fails on the one-row table \<open>home_loss\<close>: its
  only group has one game, yet the consistency table has a row, the chart is drawn and
  the message is empty.
\<close>

theorem consistency_single_games_counterexample:
  "list_all (\<lambda>g. length (snd g) = 1) (groupby (\<lambda>r. (SEASON r, NICKNAME r)) home_loss)
   \<and> consistency home_loss = Some [(2020, None)]
   \<and> fig6 home_loss = Some [(2020, None)]
   \<and> team_consistency_msg home_loss = []"
  by (simp add: home_loss_def groupby_def consistency_def agg_def std_def dropna_def
      fig6_def team_consistency_msg_def no_chart_def)

section \<open>Badges\<close>

lemma present_Nil [simp]: "present [] = []"
  by (simp add: present_def)

lemma present_agg_Some:
  "(\<And>g. g \<in> set groups \<Longrightarrow> f (snd g) = Some (v (snd g))) \<Longrightarrow>
   present (agg f groups) = map (\<lambda>g. (fst g, v (snd g))) groups"
  by (induction groups) (simp_all add: present_def agg_def)

lemma first_max_mem: "first_max best rest \<in> set (best # rest)"
  by (induction rest arbitrary: best) (simp, force)

lemma idxmax_agg_groupby:
  assumes "\<And>g. g \<in> set (groupby key df) \<Longrightarrow> f (snd g) = Some (v (snd g))"
  shows "df = [] \<Longrightarrow> idxmax (agg f (groupby key df)) = Inl ValueError"
    and "df \<noteq> [] \<Longrightarrow> \<exists>k \<in> key ` set df. idxmax (agg f (groupby key df)) = Inr k"
proof -
  show "df = [] \<Longrightarrow> idxmax (agg f (groupby key df)) = Inl ValueError"
    by (simp add: idxmax_def agg_def)
next
  assume ne: "df \<noteq> []"
  have p: "present (agg f (groupby key df)) = map (\<lambda>g. (fst g, v (snd g))) (groupby key df)"
    by (rule present_agg_Some) (rule assms)
  from ne obtain g gs where g: "groupby key df = g # gs"
    by (cases "groupby key df") (simp_all add: groupby_eq_Nil)
  let ?m = "first_max (fst g, v (snd g)) (map (\<lambda>g. (fst g, v (snd g))) gs)"
  have "idxmax (agg f (groupby key df)) = Inr (fst ?m)"
    unfolding idxmax_def p by (simp add: g)
  moreover have "?m \<in> set (map (\<lambda>g. (fst g, v (snd g))) (groupby key df))"
    using first_max_mem [of "(fst g, v (snd g))" "map (\<lambda>g. (fst g, v (snd g))) gs"]
    by (simp add: g)
  then have "fst ?m \<in> set (map fst (groupby key df))"
    by force
  then have "fst ?m \<in> key ` set df"
    by (simp add: map_fst_groupby)
  ultimately show "\<exists>k \<in> key ` set df. idxmax (agg f (groupby key df)) = Inr k"
    by blast
qed

lemma top_team_try_cases:
  "df_team = [] \<Longrightarrow> top_team_try df_team = Inl ValueError"
  "df_team \<noteq> [] \<Longrightarrow> \<exists>t \<in> NICKNAME ` set df_team. top_team_try df_team = Inr t"
  unfolding top_team_try_def
  by (rule idxmax_agg_groupby [where v = "\<lambda>grp. sum_list (map win grp) / real (length grp)"];
      simp add: mean_Some groupby_nonempty)+

lemma top_player_try_cases:
  "df_player = [] \<Longrightarrow> top_player_try df_player = Inl ValueError"
  "df_player \<noteq> [] \<Longrightarrow> \<exists>p \<in> PLAYER_NAME ` set df_player. top_player_try df_player = Inr p"
  unfolding top_player_try_def
  by (rule idxmax_agg_groupby [where v = "\<lambda>grp. sum_list (map EFFICIENCY_SCORE grp) / real (length grp)"];
      simp add: mean_Some groupby_nonempty)+

text \<open>
  C8. Each badge computation runs inside \<^verbatim>\<open>try\<close>: whenever \<^verbatim>\<open>idxmax\<close> raises, the
  badge is the string \<^verbatim>\<open>N/A\<close>. On an empty filtered table the computation does raise
  (\<^verbatim>\<open>ValueError\<close>) and the badge is \<^verbatim>\<open>N/A\<close>; on a table with rows it does not
  raise, and the badge is a team (a player) of the table.
\<close>

theorem badges_fall_back:
  "(top_team_try df_team = Inl e \<longrightarrow> top_team df_team = ''N/A'')
   \<and> (top_player_try df_player = Inl e' \<longrightarrow> top_player df_player = ''N/A'')
   \<and> (df_team = [] \<longrightarrow> top_team_try df_team = Inl ValueError \<and> top_team df_team = ''N/A'')
   \<and> (df_player = [] \<longrightarrow> top_player_try df_player = Inl ValueError \<and> top_player df_player = ''N/A'')
   \<and> (df_team \<noteq> [] \<longrightarrow> (\<exists>t \<in> NICKNAME ` set df_team. top_team_try df_team = Inr t \<and> top_team df_team = t))
   \<and> (df_player \<noteq> [] \<longrightarrow>
        (\<exists>p \<in> PLAYER_NAME ` set df_player. top_player_try df_player = Inr p \<and> top_player df_player = p))"
proof -
  have a: "top_team_try df_team = Inl e \<longrightarrow> top_team df_team = ''N/A''"
    by (simp add: top_team_def)
  have b: "top_player_try df_player = Inl e' \<longrightarrow> top_player df_player = ''N/A''"
    by (simp add: top_player_def)
  have c: "df_team = [] \<longrightarrow> top_team_try df_team = Inl ValueError \<and> top_team df_team = ''N/A''"
    by (simp add: top_team_def top_team_try_cases(1))
  have d: "df_player = [] \<longrightarrow> top_player_try df_player = Inl ValueError \<and> top_player df_player = ''N/A''"
    by (simp add: top_player_def top_player_try_cases(1))
  have e: "df_team \<noteq> [] \<longrightarrow> (\<exists>t \<in> NICKNAME ` set df_team. top_team_try df_team = Inr t \<and> top_team df_team = t)"
    using top_team_try_cases(2) [of df_team] by (force simp add: top_team_def)
  have f: "df_player \<noteq> [] \<longrightarrow>
        (\<exists>p \<in> PLAYER_NAME ` set df_player. top_player_try df_player = Inr p \<and> top_player df_player = p)"
    using top_player_try_cases(2) [of df_player] by (force simp add: top_player_def)
  from a b c d e f show ?thesis by blast
qed

theorem badges_fall_back_witness:
  "top_team [] = ''N/A'' \<and> top_player [] = ''N/A'' \<and> top_team home_split = ''Bulls''"
proof -
  have "top_team home_split = ''Bulls''"
    by (simp add: top_team_def top_team_try_def home_split_def groupby_def agg_def mean_def win_def
        idxmax_def present_def)
  with badges_fall_back [of "[]" ValueError "[]" ValueError] show ?thesis by simp
qed

section \<open>Top-10 tables\<close>

lemma sort_values_desc_present:
  assumes "\<forall>r \<in> set rows. col r \<noteq> None"
  shows "sort_values_desc col rows = sort_key (\<lambda>r. neg_value (col r)) rows"
proof -
  have "filter (\<lambda>r. col r \<noteq> None) rows = rows"
    using assms by (simp add: filter_id_conv)
  moreover have "filter (\<lambda>r. col r = None) rows = []"
    using assms by (simp add: filter_empty_conv)
  ultimately show ?thesis
    by (simp add: sort_values_desc_def)
qed

lemma mset_sort_values_desc: "mset (sort_values_desc col rows) = mset rows"
proof -
  have "mset (sort_values_desc col rows) =
      mset (filter (\<lambda>r. col r \<noteq> None) rows) + mset (filter (\<lambda>r. \<not> col r \<noteq> None) rows)"
    by (simp add: sort_values_desc_def)
  then show ?thesis
    by (simp only: mset_filter multiset_partition [symmetric])
qed

lemma length_sort_values_desc: "length (sort_values_desc col rows) = length rows"
  by (metis mset_sort_values_desc size_mset)

lemma dropna_present:
  "\<forall>r \<in> set rows. col r \<noteq> None \<Longrightarrow> dropna (map col rows) = map (\<lambda>r. - neg_value (col r)) rows"
  by (induction rows) (auto simp add: dropna_def neg_value_def)

lemma sorted_desc_sort_key:
  "sorted_wrt (\<lambda>a b. b \<le> a) (map (\<lambda>r. - neg_value (col r)) (sort_key (\<lambda>r. neg_value (col r)) rows))"
proof -
  have "sorted (map (\<lambda>r. neg_value (col r)) (sort_key (\<lambda>r. neg_value (col r)) rows))"
    by (rule sorted_sort_key)
  then show ?thesis
    by (simp add: sorted_wrt_map)
qed

lemma top_rows:
  assumes "\<forall>r \<in> set rows. col r \<noteq> None"
  shows "length (take n (sort_values_desc col rows)) = min n (length rows)"
    and "None \<notin> set (map col (take n (sort_values_desc col rows)))"
    and "sorted_wrt (\<lambda>a b. b \<le> a) (dropna (map col (take n (sort_values_desc col rows))))"
    and "mset (take n (sort_values_desc col rows)) \<subseteq># mset rows"
    and "length rows \<le> n \<Longrightarrow> mset (take n (sort_values_desc col rows)) = mset rows"
proof -
  let ?s = "sort_values_desc col rows"
  show "length (take n ?s) = min n (length rows)"
    by (simp add: length_sort_values_desc min.commute)
  have sub: "set (take n ?s) \<subseteq> set rows"
    using set_take_subset [of n ?s] mset_sort_values_desc [of col rows]
    by (metis set_mset_mset)
  with assms have some: "\<forall>r \<in> set (take n ?s). col r \<noteq> None"
    by blast
  then show "None \<notin> set (map col (take n ?s))"
    by force
  have "sorted_wrt (\<lambda>a b. b \<le> a) (map (\<lambda>r. - neg_value (col r)) ?s)"
    by (simp only: sort_values_desc_present [OF assms] sorted_desc_sort_key)
  then have "sorted_wrt (\<lambda>a b. b \<le> a) (take n (map (\<lambda>r. - neg_value (col r)) ?s))"
    by (rule sorted_wrt_take)
  then show "sorted_wrt (\<lambda>a b. b \<le> a) (dropna (map col (take n ?s)))"
    by (simp only: dropna_present [OF some] take_map)
  have "mset ?s = mset (take n ?s) + mset (drop n ?s)"
    by (metis append_take_drop_id mset_append)
  then show "mset (take n ?s) \<subseteq># mset rows"
    by (metis mset_sort_values_desc mset_subset_eq_add_left)
  show "mset (take n ?s) = mset rows" if "length rows \<le> n"
    using that by (simp add: length_sort_values_desc mset_sort_values_desc)
qed

lemma agg_groupby_eq:
  "agg f (groupby key df) =
     map (\<lambda>k. (k, f (filter (\<lambda>r. key r = k) df))) (sort (remdups (map key df)))"
  by (simp add: agg_def groupby_def comp_def)

lemma filter_key_nonempty:
  "k \<in> set (sort (remdups (map key df))) \<Longrightarrow> filter (\<lambda>r. key r = k) df \<noteq> []"
  by (auto simp add: filter_empty_conv)

lemma team_rows_eq:
  "agg (\<lambda>grp. mean_fl fl (map win grp)) (groupby NICKNAME df) = team_rows fl df"
  unfolding agg_groupby_eq team_rows_def
  by (rule map_cong [OF refl])
    (simp add: mean_fl_def win_rate_def team_games_def filter_key_nonempty)

lemma career_rows_eq:
  "filter (\<lambda>row. 100 \<le> GAMES row) (player_eff fl df) = career_rows fl df"
proof -
  have "player_eff fl df =
      map (\<lambda>p. (p, Some (mean_efficiency fl df p), length (games_of df p)))
        (sort (remdups (map PLAYER_NAME df)))"
    unfolding player_eff_def agg_groupby_eq
    by (rule map_cong [OF refl])
      (simp add: mean_fl_def mean_efficiency_def games_of_def filter_key_nonempty)
  then show ?thesis
    by (simp add: career_rows_def filter_map comp_def GAMES_def)
qed

lemma foldl_max_Max: "foldl max x xs = Max (set (x # xs))"
proof (induction xs arbitrary: x)
  case Nil
  show ?case by simp
next
  case (Cons y ys)
  have "foldl max x (y # ys) = Max (set (max x y # ys))"
    by (simp add: Cons.IH)
  also have "\<dots> = Max (set (x # y # ys))"
    by (cases "ys = []") (simp_all add: max.assoc)
  finally show ?case .
qed

lemma max_list_Max: "xs \<noteq> [] \<Longrightarrow> max_list xs = Some (Max (set xs))"
  by (cases xs) (simp_all add: foldl_max_Max)

lemma best_rows_eq: "best_games df = best_rows df"
  unfolding best_games_def agg_groupby_eq best_rows_def
  by (rule map_cong [OF refl])
    (simp add: max_list_Max best_efficiency_def best_points_def games_of_def filter_key_nonempty)

lemma team_rows_present: "\<forall>r \<in> set (team_rows fl df). snd r \<noteq> None"
  by (auto simp add: team_rows_def)

lemma career_rows_present: "\<forall>r \<in> set (career_rows fl df). AVG_EFF r \<noteq> None"
  by (auto simp add: career_rows_def AVG_EFF_def)

lemma best_rows_present: "\<forall>r \<in> set (best_rows df). BEST_EFF r \<noteq> None"
  by (auto simp add: best_rows_def BEST_EFF_def)

lemma team_success_eq:
  "team_success fl df = take 10 (sort_values_desc snd (team_rows fl df))"
  by (simp add: team_success_def team_rows_eq)

lemma player_success_eq:
  "player_success fl df = take 10 (sort_values_desc AVG_EFF (career_rows fl df))"
  by (simp add: player_success_def career_rows_eq)

lemma top_games_eq: "top_games df = take 10 (sort_values_desc BEST_EFF (best_rows df))"
  by (simp add: top_games_def best_rows_eq)

lemma eleven_teams_success:
  "team_success exact_ops eleven_teams =
     [(''Bulls'', Some 1), (''Hawks'', Some 1), (''Mavericks'', Some 1), (''Nets'', Some 1),
      (''Pistons'', Some 1), (''Cavaliers'', Some 0), (''Celtics'', Some 0),
      (''Hornets'', Some 0), (''Nuggets'', Some 0), (''Rockets'', Some 0)]"
  by code_simp

lemma careers_success:
  "player_success exact_ops careers = [(''B'', Some 25, 120), (''A'', Some 20, 100)]"
  by code_simp

lemma careers_rows:
  "career_rows exact_ops careers = [(''A'', Some 20, 100), (''B'', Some 25, 120)]"
  by code_simp

lemma careers_top_games:
  "top_games careers =
     [(''C'', Some 30, Some 28), (''B'', Some 25, Some 22), (''A'', Some 20, Some 15)]"
  by code_simp

lemma careers_best_rows:
  "best_rows careers =
     [(''A'', Some 20, Some 15), (''B'', Some 25, Some 22), (''C'', Some 30, Some 28)]"
  by code_simp

text \<open>
  C6. In every float arithmetic \<open>fl\<close>, the top-10 teams by mean win rate, the top-10
  players by mean efficiency among the players with at least 100 games, and the top-10
  best single games per player each hold 10 rows, or all qualifying rows when fewer
  than 10 qualify, and never more than 10; every row carries a value of the metric
  and the values descend down the table; the rows are qualifying rows, where the
  qualifying rows are read off the filtered input table: one per team with its mean
  win rate, one per player with at least 100 games with the player's mean efficiency
  and number of games, one per player with the player's best efficiency and best
  points; and when at most 10 rows qualify, the table holds exactly the qualifying
  rows.
\<close>

theorem top_10_rows:
  "length (team_success fl df_team) = min 10 (length (team_rows fl df_team))
   \<and> length (player_success fl df_player) = min 10 (length (career_rows fl df_player))
   \<and> length (top_games df_player) = min 10 (length (best_rows df_player))
   \<and> length (team_success fl df_team) \<le> 10
   \<and> length (player_success fl df_player) \<le> 10
   \<and> length (top_games df_player) \<le> 10
   \<and> None \<notin> set (map snd (team_success fl df_team))
   \<and> None \<notin> set (map AVG_EFF (player_success fl df_player))
   \<and> None \<notin> set (map BEST_EFF (top_games df_player))
   \<and> sorted_wrt (\<lambda>a b. b \<le> a) (dropna (map snd (team_success fl df_team)))
   \<and> sorted_wrt (\<lambda>a b. b \<le> a) (dropna (map AVG_EFF (player_success fl df_player)))
   \<and> sorted_wrt (\<lambda>a b. b \<le> a) (dropna (map BEST_EFF (top_games df_player)))
   \<and> mset (team_success fl df_team) \<subseteq># mset (team_rows fl df_team)
   \<and> mset (player_success fl df_player) \<subseteq># mset (career_rows fl df_player)
   \<and> mset (top_games df_player) \<subseteq># mset (best_rows df_player)
   \<and> (length (team_rows fl df_team) \<le> 10 \<longrightarrow>
        mset (team_success fl df_team) = mset (team_rows fl df_team))
   \<and> (length (career_rows fl df_player) \<le> 10 \<longrightarrow>
        mset (player_success fl df_player) = mset (career_rows fl df_player))
   \<and> (length (best_rows df_player) \<le> 10 \<longrightarrow>
        mset (top_games df_player) = mset (best_rows df_player))"
proof -
  note t = top_rows [OF team_rows_present [of fl df_team], where n = 10,
      folded team_success_eq]
  note p = top_rows [OF career_rows_present [of fl df_player], where n = 10,
      folded player_success_eq]
  note g = top_rows [OF best_rows_present [of df_player], where n = 10, folded top_games_eq]
  have len: "length (team_success fl df_team) \<le> 10" "length (player_success fl df_player) \<le> 10"
      "length (top_games df_player) \<le> 10"
    by (simp_all only: t(1) p(1) g(1) min.cobounded1)
  from len t p g show ?thesis
    by blast
qed

theorem top_10_rows_witness:
  "length (team_rows exact_ops eleven_teams) = 11
   \<and> team_success exact_ops eleven_teams =
       [(''Bulls'', Some 1), (''Hawks'', Some 1), (''Mavericks'', Some 1), (''Nets'', Some 1),
        (''Pistons'', Some 1), (''Cavaliers'', Some 0), (''Celtics'', Some 0),
        (''Hornets'', Some 0), (''Nuggets'', Some 0), (''Rockets'', Some 0)]
   \<and> career_rows exact_ops careers = [(''A'', Some 20, 100), (''B'', Some 25, 120)]
   \<and> player_success exact_ops careers = [(''B'', Some 25, 120), (''A'', Some 20, 100)]
   \<and> mset (player_success exact_ops careers) = mset (career_rows exact_ops careers)
   \<and> top_games careers =
       [(''C'', Some 30, Some 28), (''B'', Some 25, Some 22), (''A'', Some 20, Some 15)]
   \<and> mset (top_games careers) = mset (best_rows careers)"
proof -
  have eleven: "length (team_rows exact_ops eleven_teams) = 11"
    by code_simp
  have two: "length (career_rows exact_ops careers) \<le> 10"
    by (simp add: careers_rows)
  have three: "length (best_rows careers) \<le> 10"
    by (simp add: careers_best_rows)
  from top_10_rows [of exact_ops eleven_teams careers] two three
  have "mset (player_success exact_ops careers) = mset (career_rows exact_ops careers)"
    and "mset (top_games careers) = mset (best_rows careers)"
    by blast+
  with eleven eleven_teams_success careers_rows careers_success careers_top_games
  show ?thesis
    by simp
qed

section \<open>Player colours\<close>

lemma foldr_max_ge: "v \<in> set vs \<Longrightarrow> f v \<le> foldr max (map f vs) (0::nat)"
  by (induction vs) (auto simp add: max_def)

lemma foldr_max_attained:
  "vs \<noteq> [] \<Longrightarrow> \<exists>v \<in> set vs. f v = foldr max (map f vs) (0::nat)"
proof (induction vs)
  case Nil
  then show ?case by simp
next
  case (Cons a vs)
  show ?case
  proof (cases "vs = []")
    case True
    then show ?thesis by simp
  next
    case False
    with Cons.IH obtain v where v: "v \<in> set vs" "f v = foldr max (map f vs) 0"
      by blast
    show ?thesis
    proof (cases "f a \<le> foldr max (map f vs) 0")
      case True
      then have "foldr max (map f (a # vs)) 0 = foldr max (map f vs) 0"
        by (simp add: max.absorb2)
      with v show ?thesis
        by (metis list.set_intros(2))
    next
      case False
      then have "foldr max (map f (a # vs)) 0 = f a"
        by (simp add: max.absorb1)
      then show ?thesis
        by (metis list.set_intros(1))
    qed
  qed
qed

lemma mode_head:
  assumes "xs \<noteq> []"
  shows "\<exists>t rest. mode xs = t # rest \<and> t \<in> set xs
     \<and> (\<forall>u. count_list xs u \<le> count_list xs t)
     \<and> (\<forall>u. count_list xs u = count_list xs t \<longrightarrow> t \<le> u)"
proof -
  let ?vals = "sort (remdups xs)"
  let ?top = "foldr max (map (count_list xs) ?vals) 0"
  have m: "mode xs = filter (\<lambda>v. count_list xs v = ?top) ?vals"
    by (simp add: mode_def Let_def)
  from assms have "?vals \<noteq> []"
    by simp
  then obtain w where w: "w \<in> set ?vals" "count_list xs w = ?top"
    using foldr_max_attained [of ?vals "count_list xs"] by blast
  then have "w \<in> set (mode xs)"
    by (simp add: m)
  then obtain t rest where tr: "mode xs = t # rest"
    by (cases "mode xs") auto
  have sorted: "sorted (mode xs)"
    unfolding m by (rule sorted_wrt_filter) simp
  have t_in: "t \<in> set (mode xs)"
    by (simp add: tr)
  then have t: "t \<in> set xs" "count_list xs t = ?top"
    by (simp_all add: m)
  have top: "count_list xs u \<le> count_list xs t" for u
  proof (cases "u \<in> set xs")
    case True
    then show ?thesis
      using foldr_max_ge [of u ?vals "count_list xs"] t(2) by simp
  next
    case False
    then show ?thesis
      by (simp add: count_list_0_iff)
  qed
  have least: "t \<le> u" if "count_list xs u = count_list xs t" for u
  proof -
    from t(1) have "count_list xs t \<noteq> 0"
      by (simp add: count_list_0_iff)
    with that have "u \<in> set xs"
      by (metis count_list_0_iff)
    with that t(2) have "u \<in> set (mode xs)"
      by (simp add: m)
    with sorted show ?thesis
      by (auto simp add: tr)
  qed
  from tr t(1) top least show ?thesis
    by blast
qed

lemma map_of_agg_groupby:
  "map_of (agg f (groupby key df)) k =
     (if k \<in> key ` set df then Some (f (filter (\<lambda>r. key r = k) df)) else None)"
proof -
  have "agg f (groupby key df) =
      map (\<lambda>k. (k, f (filter (\<lambda>r. key r = k) df))) (sort (remdups (map key df)))"
    by (simp add: agg_def groupby_def comp_def)
  then show ?thesis
    by (simp add: map_of_map_restrict restrict_map_def)
qed

lemma team_primary_map_eq:
  "team_primary_map df_team t =
     (if t \<in> NICKNAME ` set df_team then Some (fst (team_colors t)) else None)"
  by (simp add: team_primary_map_def map_of_map_restrict restrict_map_def)

lemma team_secondary_map_eq:
  "team_secondary_map df_team t =
     (if t \<in> NICKNAME ` set df_team then Some (snd (team_colors t)) else None)"
  by (simp add: team_secondary_map_def map_of_map_restrict restrict_map_def)

lemma team_colors_Bulls: "team_colors ''Bulls'' = (''#CE1141'', ''#000000'')"
  by (simp add: team_colors_def TEAM_COLORS_def)

lemma team_colors_Lakers: "team_colors ''Lakers'' = (''#552583'', ''#FDB927'')"
  by (simp add: team_colors_def TEAM_COLORS_def)

text \<open>
  C4, as the code has it. Every player of the filtered player table is mapped to the
  colours of the team that occurs most often among the player's filtered rows; when
  several teams are tied for most frequent, the team whose name is smallest in string
  order is taken, since \<^verbatim>\<open>mode()\<close> returns the tied values sorted. The colours are
  read from the team maps of the same run: the pair of \<^verbatim>\<open>TEAM_COLORS\<close> for a team of
  the filtered team table, the default grey for any other team.
\<close>

theorem player_colors_most_frequent_team:
  "p \<in> PLAYER_NAME ` set df_player \<longrightarrow>
     (\<exists>t. team_mode (filter (\<lambda>r. PLAYER_NAME r = p) df_player) = Some t
        \<and> t \<in> P_NICKNAME ` set (filter (\<lambda>r. PLAYER_NAME r = p) df_player)
        \<and> (\<forall>u. count_list (map P_NICKNAME (filter (\<lambda>r. PLAYER_NAME r = p) df_player)) u
                \<le> count_list (map P_NICKNAME (filter (\<lambda>r. PLAYER_NAME r = p) df_player)) t)
        \<and> (\<forall>u. count_list (map P_NICKNAME (filter (\<lambda>r. PLAYER_NAME r = p) df_player)) u
                = count_list (map P_NICKNAME (filter (\<lambda>r. PLAYER_NAME r = p) df_player)) t
              \<longrightarrow> t \<le> u)
        \<and> player_primary_map df_team df_player p =
            Some (if t \<in> NICKNAME ` set df_team then fst (team_colors t) else default_team_color)
        \<and> player_secondary_map df_team df_player p =
            Some (if t \<in> NICKNAME ` set df_team then snd (team_colors t) else default_team_color))"
proof
  assume p: "p \<in> PLAYER_NAME ` set df_player"
  let ?teams = "map P_NICKNAME (filter (\<lambda>r. PLAYER_NAME r = p) df_player)"
  from p have "?teams \<noteq> []"
    by (auto simp add: filter_empty_conv)
  from mode_head [OF this] obtain t rest where tr: "mode ?teams = t # rest"
    and t: "t \<in> set ?teams"
    and top: "\<forall>u. count_list ?teams u \<le> count_list ?teams t"
    and least: "\<forall>u. count_list ?teams u = count_list ?teams t \<longrightarrow> t \<le> u"
    by blast
  have tm: "team_mode (filter (\<lambda>r. PLAYER_NAME r = p) df_player) = Some t"
    by (simp add: team_mode_def iloc0_def tr)
  have prim: "player_primary_map df_team df_player p =
      Some (if t \<in> NICKNAME ` set df_team then fst (team_colors t) else default_team_color)"
    using p by (simp add: player_primary_map_def map_of_agg_groupby tm dict_get_def team_primary_map_eq)
  have sec: "player_secondary_map df_team df_player p =
      Some (if t \<in> NICKNAME ` set df_team then snd (team_colors t) else default_team_color)"
    using p by (simp add: player_secondary_map_def map_of_agg_groupby tm dict_get_def
        team_primary_map_eq team_secondary_map_eq)
  from tm t top least prim sec
  show "\<exists>t. team_mode (filter (\<lambda>r. PLAYER_NAME r = p) df_player) = Some t
        \<and> t \<in> P_NICKNAME ` set (filter (\<lambda>r. PLAYER_NAME r = p) df_player)
        \<and> (\<forall>u. count_list ?teams u \<le> count_list ?teams t)
        \<and> (\<forall>u. count_list ?teams u = count_list ?teams t \<longrightarrow> t \<le> u)
        \<and> player_primary_map df_team df_player p =
            Some (if t \<in> NICKNAME ` set df_team then fst (team_colors t) else default_team_color)
        \<and> player_secondary_map df_team df_player p =
            Some (if t \<in> NICKNAME ` set df_team then snd (team_colors t) else default_team_color)"
    by (intro exI [of _ t]) simp
qed

theorem player_colors_most_frequent_team_witness:
  "team_mode (filter (\<lambda>r. PLAYER_NAME r = ''A'') traded) = Some ''Bulls''
   \<and> player_primary_map home_split traded ''A'' = Some ''#CE1141''
   \<and> player_secondary_map home_split traded ''A'' = Some ''#000000''"
proof -
  have p: "''A'' \<in> PLAYER_NAME ` set traded"
    by (simp add: traded_def)
  have tm: "team_mode (filter (\<lambda>r. PLAYER_NAME r = ''A'') traded) = Some ''Bulls''"
    by (simp add: traded_def team_mode_def iloc0_def mode_def)
  have b: "''Bulls'' \<in> NICKNAME ` set home_split"
    by (simp add: home_split_def)
  from player_colors_most_frequent_team [of "''A''" traded home_split] p tm b
  show ?thesis
    by (auto simp add: team_colors_Bulls)
qed


text \<open>
  C4 as the specification words it fails on the table \<open>traded\<close>: player \<open>A\<close>
  has one row for the Lakers, then one for the Bulls. The first-encountered most frequent
  team is the Lakers, yet the player gets the colours of the Bulls.
\<close>

theorem player_colors_first_encountered_counterexample:
  "first_mode (map P_NICKNAME (filter (\<lambda>r. PLAYER_NAME r = ''A'') traded)) = Some ''Lakers''
   \<and> team_primary_map home_split ''Lakers'' = Some ''#552583''
   \<and> team_secondary_map home_split ''Lakers'' = Some ''#FDB927''
   \<and> player_primary_map home_split traded ''A'' = Some ''#CE1141''
   \<and> player_secondary_map home_split traded ''A'' = Some ''#000000''"
  by (simp add: first_mode_def traded_def home_split_def team_primary_map_eq team_secondary_map_eq
      team_colors_Bulls team_colors_Lakers player_primary_map_def player_secondary_map_def
      map_of_agg_groupby team_mode_def iloc0_def mode_def dict_get_def)

section \<open>Player archetypes: properties\<close>

lemma player_agg_eq:
  "player_agg fl df = map (agg_row fl df) (sort (remdups (map PLAYER_NAME df)))"
proof -
  have "player_agg fl df =
      map (\<lambda>p. \<lparr>A_PLAYER_NAME = p, AVG_MIN = mean_fl fl (map MINUTES_PLAYED (games_of df p)),
                 AVG_PTS = mean_fl fl (map P_PTS (games_of df p)),
                 GAMES_PLAYED = length (games_of df p)\<rparr>)
        (sort (remdups (map PLAYER_NAME df)))"
    by (simp add: player_agg_def groupby_def comp_def games_of_def)
  also have "\<dots> = map (agg_row fl df) (sort (remdups (map PLAYER_NAME df)))"
  proof (rule map_cong [OF refl])
    fix p
    assume "p \<in> set (sort (remdups (map PLAYER_NAME df)))"
    then have "games_of df p \<noteq> []"
      by (auto simp add: games_of_def filter_empty_conv)
    then show "\<lparr>A_PLAYER_NAME = p, AVG_MIN = mean_fl fl (map MINUTES_PLAYED (games_of df p)),
                 AVG_PTS = mean_fl fl (map P_PTS (games_of df p)),
                 GAMES_PLAYED = length (games_of df p)\<rparr> = agg_row fl df p"
      by (simp add: agg_row_def mean_fl_def avg_minutes_def avg_points_def)
  qed
  finally show ?thesis .
qed

lemma retained_eq: "retained fl df = map (agg_row fl df) (retained_players fl df)"
  by (simp add: retained_def player_agg_eq filter_map comp_def retained_players_def
      agg_row_def ge_float_def)

lemma retained_players_minutes:
  "p \<in> set (retained_players fl df) \<Longrightarrow> 8 \<le> avg_minutes fl df p"
  by (simp add: retained_players_def)

lemma with_pts_per_min_eq:
  "with_pts_per_min fl (retained fl df) = map (eff_row fl df) (retained_players fl df)"
proof -
  have "with_pts_per_min fl (retained fl df) =
      map (\<lambda>p. \<lparr>A_PLAYER_NAME = p, AVG_MIN = Some (avg_minutes fl df p),
                 AVG_PTS = Some (avg_points fl df p), GAMES_PLAYED = length (games_of df p),
                 PTS_PER_MIN = safe_div fl (avg_points fl df p) (avg_minutes fl df p)\<rparr>)
        (retained_players fl df)"
    by (simp add: with_pts_per_min_def retained_eq comp_def agg_row_def div_float_def)
  also have "\<dots> = map (eff_row fl df) (retained_players fl df)"
  proof (rule map_cong [OF refl])
    fix p
    assume "p \<in> set (retained_players fl df)"
    then have "avg_minutes fl df p \<noteq> 0"
      using retained_players_minutes [of p fl df] by simp
    then show "\<lparr>A_PLAYER_NAME = p, AVG_MIN = Some (avg_minutes fl df p),
                 AVG_PTS = Some (avg_points fl df p), GAMES_PLAYED = length (games_of df p),
                 PTS_PER_MIN = safe_div fl (avg_points fl df p) (avg_minutes fl df p)\<rparr> =
               eff_row fl df p"
      by (simp add: eff_row_def safe_div_def efficiency_def)
  qed
  finally show ?thesis .
qed

lemma dropna_Some: "dropna (map (\<lambda>x. Some (f x)) xs) = map f xs"
  by (induction xs) (simp_all add: dropna_def)

lemma usage_median_eq:
  "usage_median fl (map (eff_row fl df) ps) = median_fl fl (map (avg_minutes fl df) ps)"
  by (simp add: usage_median_def comp_def eff_row_def dropna_Some)

lemma eff_median_eq:
  "eff_median fl (map (eff_row fl df) ps) = median_fl fl (map (efficiency fl df) ps)"
  by (simp add: eff_median_def comp_def eff_row_def dropna_Some)

lemma sort_eq_Nil: "sort xs = [] \<longleftrightarrow> xs = []"
  by (metis length_0_conv length_sort)

lemma median_fl_Some:
  assumes "xs \<noteq> []"
  shows "\<exists>m. median_fl fl xs = Some m"
proof (cases "length (sort xs) mod 2 = 1")
  case True
  with assms have "median_fl fl xs = Some (sort xs ! (length (sort xs) div 2))"
    by (simp add: median_fl_def Let_def sort_eq_Nil)
  then show ?thesis
    by blast
next
  case False
  with assms have "median_fl fl xs =
      Some (fl_mid fl (sort xs ! (length (sort xs) div 2 - 1)) (sort xs ! (length (sort xs) div 2)))"
    by (simp add: median_fl_def Let_def sort_eq_Nil)
  then show ?thesis
    by blast
qed

lemma assign_archetype_eff_row:
  "assign_archetype (Some um) (Some em) (eff_row fl df p) =
     label_by_medians um em (avg_minutes fl df p) (efficiency fl df p)"
  by (auto simp add: assign_archetype_def label_by_medians_def eff_row_def ge_float_def lt_float_def)

lemma archetype_data_eq:
  "archetype_data fl df =
     map (arch_row fl df (median_fl fl (map (avg_minutes fl df) (retained_players fl df)))
                         (median_fl fl (map (efficiency fl df) (retained_players fl df))))
       (retained_players fl df)"
  by (simp add: archetype_data_def Let_def with_pts_per_min_eq usage_median_eq eff_median_eq
      comp_def arch_row_def eff_row_def)

lemma mset_four_labels:
  assumes "\<forall>r \<in> set rows. lab r = a \<or> lab r = b \<or> lab r = c \<or> lab r = d"
    and "distinct [a, b, c, d]"
  shows "mset rows = mset (filter (\<lambda>r. lab r = a) rows) + mset (filter (\<lambda>r. lab r = b) rows)
     + mset (filter (\<lambda>r. lab r = c) rows) + mset (filter (\<lambda>r. lab r = d) rows)"
  using assms by (induction rows) auto

lemma assign_archetype_labels:
  "assign_archetype um em row = ''High-Usage Stars'' \<or> assign_archetype um em row = ''Volume Scorers''
   \<or> assign_archetype um em row = ''Efficient Role Players''
   \<or> assign_archetype um em row = ''Low-Impact Bench Players''"
  by (simp add: assign_archetype_def)

text \<open>
  The classifier on the two example tables. On \<open>league\<close> no operation rounds. On
  \<open>close_call\<close> the label of \<open>A\<close> depends on the arithmetic: without rounding \<open>A\<close> ties
  with the median efficiency; in doubles \<open>A\<close> falls below it.
\<close>

lemma league_names: "map A_PLAYER_NAME (archetype_data exact_ops league) = [''A'', ''B'', ''E'']"
  by code_simp

lemma league_labels: "map ARCHETYPE (archetype_data exact_ops league) =
    [''Volume Scorers'', ''Efficient Role Players'', ''High-Usage Stars'']"
  by code_simp

lemma league_eff: "map PTS_PER_MIN (archetype_data exact_ops league) =
    [Some (1 / 2), Some (4 / 5), Some (13 / 20)]"
  by code_simp

lemma close_call_exact: "map ARCHETYPE (archetype_data exact_ops close_call) =
    [''Efficient Role Players'', ''High-Usage Stars'']"
  by code_simp

lemma close_call_double:
  "map (\<lambda>r. (A_PLAYER_NAME r, PTS_PER_MIN r, ARCHETYPE r)) (archetype_data double_ops close_call) =
    [(''A'', Some (7205759403792793 / 72057594037927936), ''Low-Impact Bench Players''),
     (''B'', Some (3602879701896397 / 36028797018963968), ''High-Usage Stars'')]"
  by code_simp

lemma close_call_names: "map A_PLAYER_NAME (archetype_data double_ops close_call) = [''A'', ''B'']"
  using arg_cong [OF close_call_double, of "map fst"] by (simp add: comp_def)

lemma close_call_labels: "map ARCHETYPE (archetype_data double_ops close_call) =
    [''Low-Impact Bench Players'', ''High-Usage Stars'']"
  using arg_cong [OF close_call_double, of "map (\<lambda>t. snd (snd t))"] by (simp add: comp_def)

text \<open>
  C1. In every float arithmetic \<open>fl\<close>, the classifier retains exactly the players with
  at least 30 games and a computed average of at least 8 minutes, one row each; a
  retained row holds the player's number of games, the computed average minutes and
  average points, and their computed quotient as efficiency; with the medians of the
  average minutes and of the efficiency over the retained players, every row is
  labelled by the table of the four labels, a computed value equal to the median
  counting as \<open>\<ge>\<close>; every row has one of the four labels, and the four groups of rows
  together are the retained rows, each row in one group.
\<close>

theorem archetypes_partition:
  "map A_PLAYER_NAME (archetype_data fl df_player) = retained_players fl df_player
   \<and> distinct (map A_PLAYER_NAME (archetype_data fl df_player))
   \<and> (\<forall>r \<in> set (archetype_data fl df_player).
        GAMES_PLAYED r = length (games_of df_player (A_PLAYER_NAME r))
        \<and> AVG_MIN r = Some (avg_minutes fl df_player (A_PLAYER_NAME r))
        \<and> AVG_PTS r = Some (avg_points fl df_player (A_PLAYER_NAME r))
        \<and> PTS_PER_MIN r =
            Some (fl_div fl (avg_points fl df_player (A_PLAYER_NAME r))
                    (avg_minutes fl df_player (A_PLAYER_NAME r))))
   \<and> (retained_players fl df_player \<noteq> [] \<longrightarrow>
        (\<exists>um em.
            median_fl fl (map (avg_minutes fl df_player) (retained_players fl df_player)) = Some um
          \<and> median_fl fl (map (efficiency fl df_player) (retained_players fl df_player)) = Some em
          \<and> (\<forall>r \<in> set (archetype_data fl df_player).
                ARCHETYPE r =
                  label_by_medians um em (avg_minutes fl df_player (A_PLAYER_NAME r))
                    (efficiency fl df_player (A_PLAYER_NAME r)))))
   \<and> (\<forall>r \<in> set (archetype_data fl df_player).
        ARCHETYPE r = ''High-Usage Stars'' \<or> ARCHETYPE r = ''Volume Scorers''
        \<or> ARCHETYPE r = ''Efficient Role Players'' \<or> ARCHETYPE r = ''Low-Impact Bench Players'')
   \<and> mset (archetype_data fl df_player) =
        mset (filter (\<lambda>r. ARCHETYPE r = ''High-Usage Stars'') (archetype_data fl df_player))
      + mset (filter (\<lambda>r. ARCHETYPE r = ''Volume Scorers'') (archetype_data fl df_player))
      + mset (filter (\<lambda>r. ARCHETYPE r = ''Efficient Role Players'') (archetype_data fl df_player))
      + mset (filter (\<lambda>r. ARCHETYPE r = ''Low-Impact Bench Players'') (archetype_data fl df_player))"
proof -
  let ?ps = "retained_players fl df_player"
  let ?um = "median_fl fl (map (avg_minutes fl df_player) ?ps)"
  let ?em = "median_fl fl (map (efficiency fl df_player) ?ps)"
  note eq = archetype_data_eq [of fl df_player]
  have names: "map A_PLAYER_NAME (archetype_data fl df_player) = ?ps"
    by (simp add: eq comp_def arch_row_def)
  have dist: "distinct (map A_PLAYER_NAME (archetype_data fl df_player))"
    by (simp add: names retained_players_def)
  have cols: "\<forall>r \<in> set (archetype_data fl df_player).
        GAMES_PLAYED r = length (games_of df_player (A_PLAYER_NAME r))
        \<and> AVG_MIN r = Some (avg_minutes fl df_player (A_PLAYER_NAME r))
        \<and> AVG_PTS r = Some (avg_points fl df_player (A_PLAYER_NAME r))
        \<and> PTS_PER_MIN r =
            Some (fl_div fl (avg_points fl df_player (A_PLAYER_NAME r))
                    (avg_minutes fl df_player (A_PLAYER_NAME r)))"
    by (auto simp add: eq arch_row_def efficiency_def)
  have lab: "\<exists>um em. ?um = Some um \<and> ?em = Some em
      \<and> (\<forall>r \<in> set (archetype_data fl df_player).
            ARCHETYPE r = label_by_medians um em (avg_minutes fl df_player (A_PLAYER_NAME r))
              (efficiency fl df_player (A_PLAYER_NAME r)))"
    if ne: "?ps \<noteq> []"
  proof -
    from ne obtain um where um: "?um = Some um"
      using median_fl_Some [of "map (avg_minutes fl df_player) ?ps" fl] by auto
    from ne obtain em where em: "?em = Some em"
      using median_fl_Some [of "map (efficiency fl df_player) ?ps" fl] by auto
    have "\<forall>r \<in> set (archetype_data fl df_player).
            ARCHETYPE r = label_by_medians um em (avg_minutes fl df_player (A_PLAYER_NAME r))
              (efficiency fl df_player (A_PLAYER_NAME r))"
      by (auto simp add: eq um em arch_row_def assign_archetype_eff_row)
    with um em show ?thesis
      by blast
  qed
  have four: "\<forall>r \<in> set (archetype_data fl df_player).
        ARCHETYPE r = ''High-Usage Stars'' \<or> ARCHETYPE r = ''Volume Scorers''
        \<or> ARCHETYPE r = ''Efficient Role Players'' \<or> ARCHETYPE r = ''Low-Impact Bench Players''"
    using assign_archetype_labels by (auto simp add: eq arch_row_def)
  have part: "mset (archetype_data fl df_player) =
        mset (filter (\<lambda>r. ARCHETYPE r = ''High-Usage Stars'') (archetype_data fl df_player))
      + mset (filter (\<lambda>r. ARCHETYPE r = ''Volume Scorers'') (archetype_data fl df_player))
      + mset (filter (\<lambda>r. ARCHETYPE r = ''Efficient Role Players'') (archetype_data fl df_player))
      + mset (filter (\<lambda>r. ARCHETYPE r = ''Low-Impact Bench Players'') (archetype_data fl df_player))"
    by (rule mset_four_labels [OF four]) simp
  from names dist cols lab four part show ?thesis
    by blast
qed

theorem archetypes_partition_witness:
  "map A_PLAYER_NAME (archetype_data exact_ops league) = [''A'', ''B'', ''E'']
   \<and> retained_players exact_ops league = [''A'', ''B'', ''E'']
   \<and> map ARCHETYPE (archetype_data exact_ops league) =
        [''Volume Scorers'', ''Efficient Role Players'', ''High-Usage Stars'']
   \<and> retained_players double_ops close_call = [''A'', ''B'']
   \<and> map ARCHETYPE (archetype_data double_ops close_call) =
        [''Low-Impact Bench Players'', ''High-Usage Stars'']"
  using archetypes_partition [of exact_ops league] archetypes_partition [of double_ops close_call]
    league_names league_labels close_call_names close_call_labels
  by simp

text \<open>
  C10. In every float arithmetic \<open>fl\<close>, every row that reaches the division of step 3
  has passed the filter of step 2: its average minutes are a number, at least 8 and so
  positive, its average points are a number, and the guarded division returns their
  quotient; no row of the classifier's output lacks its efficiency.
\<close>

theorem efficiency_division_defined:
  "(\<forall>r \<in> set (retained fl df_player).
      \<exists>m p. AVG_MIN r = Some m \<and> 8 \<le> m \<and> 0 < m \<and> AVG_PTS r = Some p
        \<and> safe_div fl p m = Some (fl_div fl p m)
        \<and> div_float fl (AVG_PTS r) (AVG_MIN r) = Some (fl_div fl p m))
   \<and> (\<forall>r \<in> set (with_pts_per_min fl (retained fl df_player)). PTS_PER_MIN r \<noteq> None)
   \<and> (\<forall>r \<in> set (archetype_data fl df_player). PTS_PER_MIN r \<noteq> None)"
proof -
  have a: "\<forall>r \<in> set (retained fl df_player).
      \<exists>m p. AVG_MIN r = Some m \<and> 8 \<le> m \<and> 0 < m \<and> AVG_PTS r = Some p
        \<and> safe_div fl p m = Some (fl_div fl p m)
        \<and> div_float fl (AVG_PTS r) (AVG_MIN r) = Some (fl_div fl p m)"
  proof
    fix r
    assume "r \<in> set (retained fl df_player)"
    then obtain p where p: "p \<in> set (retained_players fl df_player)"
        and r: "r = agg_row fl df_player p"
      by (auto simp add: retained_eq)
    from retained_players_minutes [OF p]
    have m: "8 \<le> avg_minutes fl df_player p" "0 < avg_minutes fl df_player p"
      by simp_all
    then show "\<exists>m p. AVG_MIN r = Some m \<and> 8 \<le> m \<and> 0 < m \<and> AVG_PTS r = Some p
        \<and> safe_div fl p m = Some (fl_div fl p m)
        \<and> div_float fl (AVG_PTS r) (AVG_MIN r) = Some (fl_div fl p m)"
      by (simp add: r agg_row_def safe_div_def div_float_def)
  qed
  have b: "\<forall>r \<in> set (with_pts_per_min fl (retained fl df_player)). PTS_PER_MIN r \<noteq> None"
    by (auto simp add: with_pts_per_min_eq eff_row_def)
  have c: "\<forall>r \<in> set (archetype_data fl df_player). PTS_PER_MIN r \<noteq> None"
    by (auto simp add: archetype_data_eq arch_row_def)
  from a b c show ?thesis
    by blast
qed

theorem efficiency_division_defined_witness:
  "map PTS_PER_MIN (archetype_data exact_ops league) = [Some (1 / 2), Some (4 / 5), Some (13 / 20)]
   \<and> list_all (\<lambda>r. PTS_PER_MIN r \<noteq> None) (archetype_data exact_ops league)
   \<and> list_all (\<lambda>r. PTS_PER_MIN r \<noteq> None) (archetype_data double_ops close_call)"
  using efficiency_division_defined [of exact_ops league]
    efficiency_division_defined [of double_ops close_call] league_eff
  by (simp add: list_all_iff)

section \<open>The player filter and the team table\<close>

text \<open>
  C9. Two runs of the callback that differ only in the player selection work on the same
  filtered team table, and agree on every output computed from it: the total-games,
  average-points and home-win-rate cards, the season scoring trend, league parity,
  home/away trend, team-vs-league (team and league averages), conference, consistency
  (chart data and message), top-10 teams and top-10 dominant seasons tables, and the
  most-successful-team badge.
\<close>

theorem team_outputs_ignore_player_filter:
  "fst (filter_tables season team player1 base) = fst (filter_tables season team player2 base)
   \<and> d_total_games (update_dashboard fl season team player1 base) = d_total_games (update_dashboard fl season team player2 base)
   \<and> d_avg_pts (update_dashboard fl season team player1 base) = d_avg_pts (update_dashboard fl season team player2 base)
   \<and> d_home_win_rate (update_dashboard fl season team player1 base) = d_home_win_rate (update_dashboard fl season team player2 base)
   \<and> d_season_scoring (update_dashboard fl season team player1 base) = d_season_scoring (update_dashboard fl season team player2 base)
   \<and> d_parity (update_dashboard fl season team player1 base) = d_parity (update_dashboard fl season team player2 base)
   \<and> d_home_away (update_dashboard fl season team player1 base) = d_home_away (update_dashboard fl season team player2 base)
   \<and> d_team_avg (update_dashboard fl season team player1 base) = d_team_avg (update_dashboard fl season team player2 base)
   \<and> d_league_avg (update_dashboard fl season team player1 base) = d_league_avg (update_dashboard fl season team player2 base)
   \<and> d_conf (update_dashboard fl season team player1 base) = d_conf (update_dashboard fl season team player2 base)
   \<and> d_fig6 (update_dashboard fl season team player1 base) = d_fig6 (update_dashboard fl season team player2 base)
   \<and> d_team_consistency_msg (update_dashboard fl season team player1 base) = d_team_consistency_msg (update_dashboard fl season team player2 base)
   \<and> d_team_success (update_dashboard fl season team player1 base) = d_team_success (update_dashboard fl season team player2 base)
   \<and> d_dominant_seasons (update_dashboard fl season team player1 base) = d_dominant_seasons (update_dashboard fl season team player2 base)
   \<and> d_top_team (update_dashboard fl season team player1 base) = d_top_team (update_dashboard fl season team player2 base)"
  by (simp add: update_dashboard_def Let_def filter_tables_fst)


end
